theory Spec2Isabelle
  imports Complex_Main
begin

section \<open>Moment2: second-moment transport of a bunch through lattice elements\<close>

text \<open>
  The development embeds \<^verbatim>\<open>src/src/moment2.cpp\<close> and the parts of \<^verbatim>\<open>base.h\<close> it uses.

  Numbers. A C++ \<^verbatim>\<open>double\<close> is modelled as a \<^typ>\<open>real\<close>: arithmetic is exact, there is
  no rounding, no overflow and no infinity. The one non-finite value the program itself
  creates is the quiet NaN it stores in the two cache keys of an element ("spoil to force
  recalculation"); the three variables this value can reach (the two keys and the kinetic
  energy of a state, which is assigned from a key) have the type \<open>dbl\<close> below, whose
  comparison follows IEEE 754: a NaN differs from everything, itself included.
\<close>

subsection \<open>Doubles that may hold the NaN sentinel\<close>

datatype dbl = NaN | Num real

text \<open>The C++ operator \<^verbatim>\<open>!=\<close> on doubles.\<close>

fun dbl_ne :: "dbl \<Rightarrow> dbl \<Rightarrow> bool" where
  "dbl_ne (Num x) (Num y) = (x \<noteq> y)"
| "dbl_ne _ _ = True"

text \<open>The C++ operator \<^verbatim>\<open>+\<close> on doubles.\<close>

fun dbl_add :: "dbl \<Rightarrow> dbl \<Rightarrow> dbl" where
  "dbl_add (Num x) (Num y) = Num (x + y)"
| "dbl_add _ _ = NaN"

subsection \<open>Dense matrices and vectors\<close>

text \<open>
  Modelled from the spec: the header \<^verbatim>\<open>scsi/moment2.h\<close> is not part of the sources; it
  declares the phase-space dimension \<^verbatim>\<open>maxsize\<close> and the indices \<^verbatim>\<open>PS_X\<close> ... \<^verbatim>\<open>PS_PS\<close>.
  The spec gives the canonical dimension 7 and the order x, x', y, y', phase,
  energy offset, followed by one homogeneous coordinate.
\<close>

definition maxsize :: nat where "maxsize = 7"
definition PS_X :: nat where "PS_X = 0"
definition PS_PX :: nat where "PS_PX = 1"
definition PS_Y :: nat where "PS_Y = 2"
definition PS_PY :: nat where "PS_PY = 3"
definition PS_S :: nat where "PS_S = 4"
definition PS_PS :: nat where "PS_PS = 5"

text \<open>
  A \<^verbatim>\<open>ublas::matrix<double>\<close> of size \<open>maxsize \<times> maxsize\<close> is its storage array
  \<^verbatim>\<open>data()\<close>: the rows one after the other (row-major, the default layout). A
  \<^verbatim>\<open>ublas::vector<double>\<close> is the list of its entries.
\<close>

type_synonym value_t = "real list"
type_synonym vector_t = "real list"

definition mat_get :: "value_t \<Rightarrow> nat \<Rightarrow> nat \<Rightarrow> real" where
  "mat_get M i j = M ! (i * maxsize + j)"

definition mat_set :: "value_t \<Rightarrow> nat \<Rightarrow> nat \<Rightarrow> real \<Rightarrow> value_t" where
  "mat_set M i j v = M[i * maxsize + j := v]"

definition identity_matrix :: value_t where
  "identity_matrix =
     map (\<lambda>k. if k div maxsize = k mod maxsize then 1 else 0) [0..<maxsize * maxsize]"

text \<open>\<^verbatim>\<open>prod(A, B)\<close> of two matrices, \<^verbatim>\<open>prod(A, v)\<close> of a matrix and a vector, \<^verbatim>\<open>trans(A)\<close>.\<close>

definition prod_mm :: "value_t \<Rightarrow> value_t \<Rightarrow> value_t" where
  "prod_mm A B =
     map (\<lambda>k. \<Sum>t\<leftarrow>[0..<maxsize]. mat_get A (k div maxsize) t * mat_get B t (k mod maxsize))
       [0..<maxsize * maxsize]"

definition prod_mv :: "value_t \<Rightarrow> vector_t \<Rightarrow> vector_t" where
  "prod_mv A v = map (\<lambda>i. \<Sum>t\<leftarrow>[0..<maxsize]. mat_get A i t * v ! t) [0..<maxsize]"

definition trans_m :: "value_t \<Rightarrow> value_t" where
  "trans_m A = map (\<lambda>k. mat_get A (k mod maxsize) (k div maxsize)) [0..<maxsize * maxsize]"

text \<open>
  \<^verbatim>\<open>std::copy(I.begin(), I.end(), dst.begin())\<close> for a source no longer than the
  destination: the first entries are overwritten, the others stay.
\<close>

definition copy_into :: "real list \<Rightarrow> real list \<Rightarrow> real list" where
  "copy_into I dst = I @ drop (length I) dst"

subsection \<open>Configuration\<close>

text \<open>
  \<^verbatim>\<open>Config\<close> wraps a \<^verbatim>\<open>std::map<std::string, boost::any>\<close>. The kinds of value the
  program reads here are doubles, strings and vectors of doubles.
\<close>

datatype any = Double real | String string | DoubleVec "real list"

type_synonym Config = "string \<rightharpoonup> any"

datatype error = key_error | bad_any_cast | invalid_argument | runtime_error

text \<open>
  Modelled from the spec: \<^verbatim>\<open>Config::getAny\<close> is declared in \<^verbatim>\<open>base.h\<close> and defined in a
  file that is not part of the sources. By the comment on \<^verbatim>\<open>Config::get\<close> and section 4.1
  of the spec, it returns the value stored under the name and throws \<^verbatim>\<open>key_error\<close>
  (KeyNotFound) when there is none.
\<close>

definition getAny :: "Config \<Rightarrow> string \<Rightarrow> error + any" where
  "getAny c s = (case c s of None \<Rightarrow> Inl key_error | Some v \<Rightarrow> Inr v)"

text \<open>\<^verbatim>\<open>boost::any_cast<T>\<close> for the three kinds.\<close>

fun any_cast_double :: "any \<Rightarrow> error + real" where
  "any_cast_double (Double x) = Inr x"
| "any_cast_double _ = Inl bad_any_cast"

fun any_cast_string :: "any \<Rightarrow> error + string" where
  "any_cast_string (String x) = Inr x"
| "any_cast_string _ = Inl bad_any_cast"

fun any_cast_vector :: "any \<Rightarrow> error + real list" where
  "any_cast_vector (DoubleVec x) = Inr x"
| "any_cast_vector _ = Inl bad_any_cast"

text \<open>\<^verbatim>\<open>Config::get<T>(name)\<close>: throws what \<^verbatim>\<open>getAny\<close> or the cast throws.\<close>

definition get_double :: "Config \<Rightarrow> string \<Rightarrow> error + real" where
  "get_double c name = (case getAny c name of Inl e \<Rightarrow> Inl e | Inr v \<Rightarrow> any_cast_double v)"

definition get_string :: "Config \<Rightarrow> string \<Rightarrow> error + string" where
  "get_string c name = (case getAny c name of Inl e \<Rightarrow> Inl e | Inr v \<Rightarrow> any_cast_string v)"

definition get_vector :: "Config \<Rightarrow> string \<Rightarrow> error + real list" where
  "get_vector c name = (case getAny c name of Inl e \<Rightarrow> Inl e | Inr v \<Rightarrow> any_cast_vector v)"

text \<open>\<^verbatim>\<open>Config::get<double>(name, def)\<close>: both exceptions are caught and give the default.\<close>

definition get_double_def :: "Config \<Rightarrow> string \<Rightarrow> real \<Rightarrow> real" where
  "get_double_def c s d = (case get_double c s of Inr x \<Rightarrow> x | Inl _ \<Rightarrow> d)"

subsection \<open>The state\<close>

text \<open>
  \<^verbatim>\<open>StateBase\<close> (from \<^verbatim>\<open>base.h\<close>) holds \<^verbatim>\<open>next_elem\<close>, the index of the element that
  follows. Its constructors and its \<^verbatim>\<open>assign\<close> are defined outside the sources, so the
  functions below take what they do to \<^verbatim>\<open>next_elem\<close> as an argument.
\<close>

record Moment2State =
  next_elem :: nat
  pos :: real
  Ekinetic :: dbl
  sync_phase :: real
  gamma :: real
  beta :: real
  moment0 :: vector_t
  state :: value_t

text \<open>
  \<^verbatim>\<open>Moment2State::Moment2State(const Config&)\<close>. The argument \<open>b\<close> is the \<^verbatim>\<open>next_elem\<close> that
  \<^verbatim>\<open>StateBase(c)\<close> sets. A vector under \<^verbatim>\<open>"moment0"\<close> or \<^verbatim>\<open>"initial"\<close> that is too
  long, or a value of another kind there, is an \<^verbatim>\<open>invalid_argument\<close>; a missing key
  leaves the zero vector and the identity.
\<close>

definition read_initial :: "Config \<Rightarrow> string \<Rightarrow> real list \<Rightarrow> error + real list" where
  "read_initial c name dst =
     (case get_vector c name of
        Inr I \<Rightarrow> if length I > length dst then Inl invalid_argument else Inr (copy_into I dst)
      | Inl key_error \<Rightarrow> Inr dst
      | Inl bad_any_cast \<Rightarrow> Inl invalid_argument
      | Inl e \<Rightarrow> Inl e)"

definition Moment2State_new :: "nat \<Rightarrow> Config \<Rightarrow> error + Moment2State" where
  "Moment2State_new b c =
     (let Ek = get_double_def c ''IonEk'' 0 in
      case read_initial c ''moment0'' (replicate maxsize 0) of
        Inl e \<Rightarrow> Inl e
      | Inr m0 \<Rightarrow>
        (case read_initial c ''initial'' identity_matrix of
           Inl e \<Rightarrow> Inl e
         | Inr st \<Rightarrow>
           (let Erest = get_double_def c ''Es'' 1;
                g = (Ek + Erest) / Erest
            in Inr
                 \<lparr> next_elem = b,
                   pos = get_double_def c ''L'' 0,
                   Ekinetic = Num Ek,
                   sync_phase = get_double_def c ''IonFy'' 0,
                   gamma = g,
                   beta = sqrt (1 + 1 / g\<^sup>2),
                   moment0 = m0,
                   state = st \<rparr>)))"

text \<open>
  The clone constructor \<^verbatim>\<open>Moment2State(const Moment2State& o, clone_tag t)\<close>. Its
  initialiser list names \<^verbatim>\<open>pos\<close>, \<^verbatim>\<open>Ekinetic\<close>, \<^verbatim>\<open>moment0\<close> and \<^verbatim>\<open>state\<close>; the doubles
  \<^verbatim>\<open>sync_phase\<close>, \<^verbatim>\<open>gamma\<close> and \<^verbatim>\<open>beta\<close> are not initialised and keep what the storage
  of the new object held. The argument \<open>u\<close> is that object when the member initialisers
  start: its base part as \<^verbatim>\<open>StateBase(o, t)\<close> built it, its own members indeterminate.
\<close>

definition Moment2State_clone :: "Moment2State \<Rightarrow> Moment2State \<Rightarrow> Moment2State" where
  "Moment2State_clone u o' =
     u\<lparr> pos := pos o', Ekinetic := Ekinetic o', moment0 := moment0 o', state := state o' \<rparr>"

text \<open>
  \<^verbatim>\<open>Moment2State::assign\<close> on another \<^verbatim>\<open>Moment2State\<close> (the dynamic cast succeeds): every
  member is copied; \<^verbatim>\<open>StateBase::assign\<close>, defined outside the sources, is the argument
  \<open>base_assign\<close>.
\<close>

definition Moment2State_assign ::
  "(nat \<Rightarrow> nat \<Rightarrow> nat) \<Rightarrow> Moment2State \<Rightarrow> Moment2State \<Rightarrow> Moment2State" where
  "Moment2State_assign base_assign s O' =
     s\<lparr> pos := pos O', Ekinetic := Ekinetic O', sync_phase := sync_phase O',
        gamma := gamma O', beta := beta O', moment0 := moment0 O', state := state O',
        next_elem := base_assign (next_elem s) (next_elem O') \<rparr>"

subsection \<open>Inverting a matrix\<close>

text \<open>
  \<^verbatim>\<open>inverse\<close> calls \<^verbatim>\<open>lu_factorize\<close> and \<^verbatim>\<open>lu_substitute\<close> of Boost.uBLAS
  (\<^verbatim>\<open>boost/numeric/ublas/lu.hpp\<close>), a library outside this repository. The functions
  below follow that header: LU factorisation in place with partial pivoting, which
  reports the first column without a pivot, a row permutation recorded as the list of
  the swaps made, and the two triangular solves.
\<close>

text \<open>\<^verbatim>\<open>index_norm_inf\<close>: the first index at which the largest absolute value stands.\<close>

definition index_norm_inf :: "real list \<Rightarrow> nat" where
  "index_norm_inf v =
     fst (fold (\<lambda>i (im, t). if \<bar>v ! i\<bar> > t then (i, \<bar>v ! i\<bar>) else (im, t))
            [0..<length v] (0, 0))"

definition swap_rows :: "value_t \<Rightarrow> nat \<Rightarrow> nat \<Rightarrow> value_t" where
  "swap_rows M a b =
     map (\<lambda>k. let r = k div maxsize; c = k mod maxsize
               in if r = a then mat_get M b c else if r = b then mat_get M a c else M ! k)
       [0..<maxsize * maxsize]"

text \<open>Column \<open>i\<close> below the diagonal is multiplied by \<open>1 / m(i, i)\<close>.\<close>

definition scale_column :: "value_t \<Rightarrow> nat \<Rightarrow> value_t" where
  "scale_column M i =
     map (\<lambda>k. let r = k div maxsize; c = k mod maxsize
               in if c = i \<and> r > i then M ! k * (1 / mat_get M i i) else M ! k)
       [0..<maxsize * maxsize]"

text \<open>The outer product of column \<open>i\<close> and row \<open>i\<close> is taken off the trailing block.\<close>

definition minus_outer_prod :: "value_t \<Rightarrow> nat \<Rightarrow> value_t" where
  "minus_outer_prod M i =
     map (\<lambda>k. let r = k div maxsize; c = k mod maxsize
               in if r > i \<and> c > i then M ! k - mat_get M r i * mat_get M i c else M ! k)
       [0..<maxsize * maxsize]"

text \<open>One round of the loop of \<^verbatim>\<open>lu_factorize\<close>, on the matrix, the permutation and \<^verbatim>\<open>singular\<close>.\<close>

definition lu_step :: "nat \<Rightarrow> value_t \<times> nat list \<times> nat \<Rightarrow> value_t \<times> nat list \<times> nat" where
  "lu_step i = (\<lambda>(m, pm, singular).
     let i_norm_inf = i + index_norm_inf (map (\<lambda>r. mat_get m r i) [i..<maxsize])
     in if mat_get m i_norm_inf i \<noteq> 0 then
          (let (m1, pm1) = (if i_norm_inf \<noteq> i
                            then (swap_rows m i_norm_inf i, pm[i := i_norm_inf])
                            else (m, pm))
           in (minus_outer_prod (scale_column m1 i) i, pm1, singular))
        else (minus_outer_prod m i, pm, if singular = 0 then i + 1 else singular))"

definition lu_factorize :: "value_t \<Rightarrow> value_t \<times> nat list \<times> nat" where
  "lu_factorize m = fold lu_step [0..<maxsize] (m, [0..<maxsize], 0)"

text \<open>\<^verbatim>\<open>swap_rows(pm, mv)\<close>: the recorded swaps, applied in order.\<close>

definition apply_permutation :: "nat list \<Rightarrow> value_t \<Rightarrow> value_t" where
  "apply_permutation pm mv =
     fold (\<lambda>i M. if i \<noteq> pm ! i then swap_rows M i (pm ! i) else M) [0..<length pm] mv"

text \<open>
  \<^verbatim>\<open>inplace_solve\<close> with the unit lower triangle of \<open>m\<close>, then with its upper triangle: for
  each pivot row \<open>n\<close>, a multiple of it is taken off the rows still to be solved.
\<close>

definition solve_unit_lower_step :: "value_t \<Rightarrow> nat \<Rightarrow> value_t \<Rightarrow> value_t" where
  "solve_unit_lower_step m n e =
     map (\<lambda>k. let r = k div maxsize; c = k mod maxsize
               in if r > n then e ! k - mat_get e n c * mat_get m r n else e ! k)
       [0..<maxsize * maxsize]"

definition solve_upper_step :: "value_t \<Rightarrow> nat \<Rightarrow> value_t \<Rightarrow> value_t" where
  "solve_upper_step m n e =
     map (\<lambda>k. let r = k div maxsize; c = k mod maxsize; t = mat_get e n c / mat_get m n n
               in if r = n then t else if r < n then e ! k - t * mat_get m r n else e ! k)
       [0..<maxsize * maxsize]"

definition lu_substitute :: "value_t \<Rightarrow> nat list \<Rightarrow> value_t \<Rightarrow> value_t" where
  "lu_substitute m pm mv =
     fold (solve_upper_step m) (rev [0..<maxsize])
       (fold (solve_unit_lower_step m) [0..<maxsize] (apply_permutation pm mv))"

text \<open>\<^verbatim>\<open>inverse(out, in)\<close>: the new value of \<open>out\<close>, or the \<^verbatim>\<open>std::runtime_error\<close> thrown.\<close>

definition inverse_m :: "value_t \<Rightarrow> error + value_t" where
  "inverse_m inp =
     (case lu_factorize inp of
        (scratch, pm, singular) \<Rightarrow>
          if singular \<noteq> 0 then Inl runtime_error
          else Inr (lu_substitute scratch pm identity_matrix))"

subsection \<open>Elements\<close>

text \<open>
  The header \<^verbatim>\<open>scsi/constants.h\<close> is not part of the sources: the speed of light \<^verbatim>\<open>C0\<close> and
  the factor \<^verbatim>\<open>MtoMM\<close> from metres to millimetres are arguments of every constructor.
  \<^verbatim>\<open>M_PI\<close> is \<^term>\<open>pi\<close>.
\<close>

record constants =
  C0 :: real
  MtoMM :: real

text \<open>
  The members of \<^verbatim>\<open>Moment2ElementBase\<close>. The base class \<^verbatim>\<open>ElementVoid\<close> (name, index and a
  copy of the configuration) has its constructor outside the sources and none of the
  code here reads its members: the constructors below describe the construction from
  the point where \<^verbatim>\<open>ElementVoid(c)\<close> has returned.
\<close>

record Moment2ElementBase =
  length_e :: real
  FSampLength :: real
  phase_factor :: real
  Erest :: real
  transfer :: value_t
  transfer_raw :: value_t
  misalign :: value_t
  misalign_inv :: value_t
  scratch :: value_t
  last_Kenergy_in :: dbl
  last_Kenergy_out :: dbl

text \<open>
  \<^verbatim>\<open>Moment2ElementBase::Moment2ElementBase(const Config&)\<close>. The initialiser list sets
  \<^verbatim>\<open>transfer_raw\<close> and \<^verbatim>\<open>misalign\<close> to the identity and only sizes \<^verbatim>\<open>transfer\<close>,
  \<^verbatim>\<open>misalign_inv\<close> and \<^verbatim>\<open>scratch\<close>, whose entries are not initialised: the argument
  \<open>u\<close> is the object when the constructor starts, and what it holds in these three
  members is what the storage happened to hold.
\<close>

definition Moment2ElementBase_new ::
  "constants \<Rightarrow> Moment2ElementBase \<Rightarrow> Config \<Rightarrow> error + Moment2ElementBase" where
  "Moment2ElementBase_new k u c =
     (let e0 = u\<lparr> transfer_raw := identity_matrix, misalign := identity_matrix \<rparr>;
          len = get_double_def c ''L'' 0
      in case get_double c ''Frf'' of
           Inl err \<Rightarrow> Inl err
         | Inr frf \<Rightarrow>
           (let fs = C0 k / frf * MtoMM k;
                pf = len * 2 * pi / fs
            in case get_double c ''IonEs'' of
                 Inl err \<Rightarrow> Inl err
               | Inr er \<Rightarrow>
                 (case inverse_m (misalign e0) of
                    Inl err \<Rightarrow> Inl err
                  | Inr mi \<Rightarrow>
                      Inr (e0\<lparr> length_e := len, FSampLength := fs, phase_factor := pf,
                               Erest := er, misalign_inv := mi,
                               last_Kenergy_in := NaN, last_Kenergy_out := NaN \<rparr>))))"

text \<open>\<^verbatim>\<open>Moment2ElementBase::assign\<close>; \<^verbatim>\<open>misalign_inv\<close> and \<^verbatim>\<open>scratch\<close> are not copied.\<close>

definition Moment2ElementBase_assign ::
  "Moment2ElementBase \<Rightarrow> Moment2ElementBase \<Rightarrow> Moment2ElementBase" where
  "Moment2ElementBase_assign e O' =
     e\<lparr> length_e := length_e O', FSampLength := FSampLength O',
        phase_factor := phase_factor O', Erest := Erest O', transfer := transfer O',
        transfer_raw := transfer_raw O', misalign := misalign O',
        last_Kenergy_in := NaN, last_Kenergy_out := NaN \<rparr>"

text \<open>
  The energy dependent entry of \<^verbatim>\<open>transfer_raw\<close>, written by both \<^verbatim>\<open>advance\<close> functions.
\<close>

definition energy_term :: "Moment2ElementBase \<Rightarrow> Moment2State \<Rightarrow> real" where
  "energy_term e ST =
     - 2 * pi / (FSampLength e * Erest e * (beta ST * gamma ST) ^ 3) * length_e e"

text \<open>
  The test \<^verbatim>\<open>ST.Ekinetic != last_Kenergy_in\<close> that guards the recalculation in both
  \<^verbatim>\<open>advance\<close> functions.
\<close>

definition energy_changed :: "Moment2ElementBase \<Rightarrow> Moment2State \<Rightarrow> bool" where
  "energy_changed e ST = dbl_ne (Ekinetic ST) (last_Kenergy_in e)"

text \<open>
  The common last part of both \<^verbatim>\<open>advance\<close> functions: position, energy and phase, then
  the first and the second moments; \<^verbatim>\<open>scratch\<close> holds the intermediate product.
\<close>

definition propagate_moments ::
  "Moment2ElementBase \<Rightarrow> Moment2State \<Rightarrow> Moment2ElementBase \<times> Moment2State" where
  "propagate_moments e ST =
     (let ST1 = ST\<lparr> pos := pos ST + length_e e \<rparr>;
          ST2 = ST1\<lparr> Ekinetic := last_Kenergy_out e \<rparr>;
          ST3 = ST2\<lparr> sync_phase := sync_phase ST2 + phase_factor e / beta ST2 \<rparr>;
          ST4 = ST3\<lparr> moment0 := prod_mv (transfer e) (moment0 ST3) \<rparr>;
          e1 = e\<lparr> scratch := prod_mm (transfer e) (state ST4) \<rparr>
      in (e1, ST4\<lparr> state := prod_mm (scratch e1) (trans_m (transfer e1)) \<rparr>))"

text \<open>\<^verbatim>\<open>Moment2ElementBase::advance\<close>, the default algorithm.\<close>

definition Moment2ElementBase_advance ::
  "Moment2ElementBase \<Rightarrow> Moment2State \<Rightarrow> Moment2ElementBase \<times> Moment2State" where
  "Moment2ElementBase_advance e ST =
     (let e1 =
        (if energy_changed e ST then
           (let a = e\<lparr> transfer_raw := mat_set (transfer_raw e) PS_S PS_PS (energy_term e ST) \<rparr>;
                b = a\<lparr> scratch := prod_mm (misalign a) (transfer_raw a) \<rparr>;
                d = b\<lparr> transfer := prod_mm (scratch b) (misalign_inv b) \<rparr>
            in d\<lparr> last_Kenergy_in := Ekinetic ST, last_Kenergy_out := Ekinetic ST \<rparr>)
         else e)
      in propagate_moments e1 ST)"

text \<open>\<^verbatim>\<open>ElementRFCavity::advance\<close>.\<close>

definition ElementRFCavity_advance ::
  "Moment2ElementBase \<Rightarrow> Moment2State \<Rightarrow> Moment2ElementBase \<times> Moment2State" where
  "ElementRFCavity_advance e ST =
     (let e1 =
        (if energy_changed e ST then
           (let a = e\<lparr> transfer_raw := mat_set (transfer_raw e) PS_S PS_PS (energy_term e ST) \<rparr>;
                b = a\<lparr> transfer := transfer_raw a \<rparr>
            in b\<lparr> last_Kenergy_in := Ekinetic ST,
                  last_Kenergy_out := dbl_add (Ekinetic ST) (Num 1) \<rparr>)
         else e)
      in propagate_moments e1 ST)"

text \<open>
  \<^verbatim>\<open>ElementSource::advance\<close> replaces the state by the element's initial state and leaves
  the element as it is.
\<close>

definition ElementSource_advance ::
  "(nat \<Rightarrow> nat \<Rightarrow> nat) \<Rightarrow> Moment2State \<Rightarrow> Moment2State \<Rightarrow> Moment2State" where
  "ElementSource_advance base_assign istate ST = Moment2State_assign base_assign ST istate"

subsection \<open>Transfer matrices of the element types\<close>

text \<open>\<^verbatim>\<open>Get2by2Matrix\<close>: the block of one plane of a quadrupole, written into \<open>M\<close>.\<close>

definition Get2by2Matrix :: "real \<Rightarrow> real \<Rightarrow> nat \<Rightarrow> value_t \<Rightarrow> value_t" where
  "Get2by2Matrix L K ind M =
     (if K > 0 then
        (let sqrtK = sqrt K;
             psi = sqrtK * L;
             cs = cos psi;
             sn = sin psi;
             M1 = mat_set (mat_set M (ind + 1) (ind + 1) cs) ind ind cs;
             M2 = (if sqrtK \<noteq> 0 then mat_set M1 ind (ind + 1) (sn / sqrtK)
                   else mat_set M1 ind (ind + 1) L)
         in if sqrtK \<noteq> 0 then mat_set M2 (ind + 1) ind (- sqrtK * sn)
            else mat_set M2 (ind + 1) ind 0)
      else
        (let sqrtK = sqrt (- K);
             psi = sqrtK * L;
             cs = cosh psi;
             sn = sinh psi;
             M1 = mat_set (mat_set M (ind + 1) (ind + 1) cs) ind ind cs;
             M2 = (if sqrtK \<noteq> 0 then mat_set M1 ind (ind + 1) (sn / sqrtK)
                   else mat_set M1 ind (ind + 1) L)
         in if sqrtK \<noteq> 0 then mat_set M2 (ind + 1) ind (sqrtK * sn)
            else mat_set M2 (ind + 1) ind 0))"

text \<open>\<^verbatim>\<open>ElementMark\<close>.\<close>

definition ElementMark_new ::
  "constants \<Rightarrow> Moment2ElementBase \<Rightarrow> Config \<Rightarrow> error + Moment2ElementBase" where
  "ElementMark_new k u c =
     (case Moment2ElementBase_new k u c of
        Inl err \<Rightarrow> Inl err
      | Inr e \<Rightarrow> Inr (e\<lparr> phase_factor := 0, length_e := 0 \<rparr>))"

text \<open>\<^verbatim>\<open>ElementDrift\<close>.\<close>

definition ElementDrift_new ::
  "constants \<Rightarrow> Moment2ElementBase \<Rightarrow> Config \<Rightarrow> error + Moment2ElementBase" where
  "ElementDrift_new k u c =
     (case Moment2ElementBase_new k u c of
        Inl err \<Rightarrow> Inl err
      | Inr e \<Rightarrow>
        (let L = length_e e * MtoMM k
         in Inr (e\<lparr> transfer_raw :=
                   mat_set (mat_set (transfer_raw e) PS_X PS_PX L) PS_Y PS_PY L \<rparr>)))"

text \<open>\<^verbatim>\<open>ElementSBend\<close>.\<close>

definition ElementSBend_new ::
  "constants \<Rightarrow> Moment2ElementBase \<Rightarrow> Config \<Rightarrow> error + Moment2ElementBase" where
  "ElementSBend_new k u c =
     (case Moment2ElementBase_new k u c of
        Inl err \<Rightarrow> Inl err
      | Inr e \<Rightarrow>
        (case get_double c ''L'' of
           Inl err \<Rightarrow> Inl err
         | Inr l \<Rightarrow>
           (case get_double c ''phi'' of
              Inl err \<Rightarrow> Inl err
            | Inr phi \<Rightarrow>
              (let L = l * MtoMM k;
                   rho = L / phi;
                   K = get_double_def c ''K'' 0 / (MtoMM k)\<^sup>2;
                   Kx = K + 1 / rho\<^sup>2;
                   Ky = - K
               in Inr (e\<lparr> transfer_raw :=
                         Get2by2Matrix L Ky PS_Y
                           (Get2by2Matrix L Kx PS_X (transfer_raw e)) \<rparr>)))))"

text \<open>\<^verbatim>\<open>ElementQuad\<close>.\<close>

definition ElementQuad_new ::
  "constants \<Rightarrow> Moment2ElementBase \<Rightarrow> Config \<Rightarrow> error + Moment2ElementBase" where
  "ElementQuad_new k u c =
     (case Moment2ElementBase_new k u c of
        Inl err \<Rightarrow> Inl err
      | Inr e \<Rightarrow>
        (case get_double c ''L'' of
           Inl err \<Rightarrow> Inl err
         | Inr l \<Rightarrow>
           (let L = l * MtoMM k;
                K = get_double_def c ''K'' 0 / (MtoMM k)\<^sup>2
            in Inr (e\<lparr> transfer_raw :=
                      Get2by2Matrix L (- K) PS_Y
                        (Get2by2Matrix L K PS_X (transfer_raw e)) \<rparr>))))"

text \<open>\<^verbatim>\<open>ElementSolenoid\<close>: the sixteen entries of the transverse block, in the order written.\<close>

definition solenoid_matrix :: "real \<Rightarrow> real \<Rightarrow> value_t \<Rightarrow> value_t" where
  "solenoid_matrix L K M =
     (let C = cos (K * L);
          S = sin (K * L);
          M1 = mat_set (mat_set (mat_set (mat_set M PS_PY PS_PY (C\<^sup>2)) PS_Y PS_Y (C\<^sup>2))
                          PS_PX PS_PX (C\<^sup>2)) PS_X PS_X (C\<^sup>2);
          M2 = (if K \<noteq> 0 then mat_set M1 PS_X PS_PX (S * C / K) else mat_set M1 PS_X PS_PX L);
          M3 = mat_set M2 PS_X PS_Y (S * C);
          M4 = (if K \<noteq> 0 then mat_set M3 PS_X PS_PY (S\<^sup>2 / K) else mat_set M3 PS_X PS_PY 0);
          M5 = mat_set M4 PS_PX PS_X (- K * S * C);
          M6 = mat_set M5 PS_PX PS_Y (- K * S\<^sup>2);
          M7 = mat_set M6 PS_PX PS_PY (S * C);
          M8 = mat_set M7 PS_Y PS_X (- S * C);
          M9 = (if K \<noteq> 0 then mat_set M8 PS_Y PS_PX (- (S\<^sup>2) / K) else mat_set M8 PS_Y PS_PX 0);
          M10 = (if K \<noteq> 0 then mat_set M9 PS_Y PS_PY (S * C / K) else mat_set M9 PS_Y PS_PY L);
          M11 = mat_set M10 PS_PY PS_X (K * S\<^sup>2);
          M12 = mat_set M11 PS_PY PS_PX (- S * C)
      in mat_set M12 PS_PY PS_Y (- K * S * C))"

definition ElementSolenoid_new ::
  "constants \<Rightarrow> Moment2ElementBase \<Rightarrow> Config \<Rightarrow> error + Moment2ElementBase" where
  "ElementSolenoid_new k u c =
     (case Moment2ElementBase_new k u c of
        Inl err \<Rightarrow> Inl err
      | Inr e \<Rightarrow>
        (case get_double c ''L'' of
           Inl err \<Rightarrow> Inl err
         | Inr l \<Rightarrow>
           (let L = l * MtoMM k;
                K = get_double_def c ''K'' 0 / MtoMM k
            in Inr (e\<lparr> transfer_raw := solenoid_matrix L K (transfer_raw e) \<rparr>))))"

text \<open>\<^verbatim>\<open>ElementRFCavity\<close>: the cavity type is read and not used.\<close>

definition ElementRFCavity_new ::
  "constants \<Rightarrow> Moment2ElementBase \<Rightarrow> Config \<Rightarrow> error + Moment2ElementBase" where
  "ElementRFCavity_new k u c =
     (case Moment2ElementBase_new k u c of
        Inl err \<Rightarrow> Inl err
      | Inr e \<Rightarrow>
        (case get_string c ''cavtype'' of
           Inl err \<Rightarrow> Inl err
         | Inr cav_type \<Rightarrow>
           (case get_double c ''L'' of
              Inl err \<Rightarrow> Inl err
            | Inr l \<Rightarrow>
              (let L = l * MtoMM k
               in Inr (e\<lparr> transfer_raw :=
                         mat_set (mat_set (transfer_raw e) PS_X PS_PX L) PS_Y PS_PY L \<rparr>)))))"

text \<open>\<^verbatim>\<open>ElementStripper\<close> and \<^verbatim>\<open>ElementEDipole\<close>: the base constructor and nothing else.\<close>

definition ElementStripper_new ::
  "constants \<Rightarrow> Moment2ElementBase \<Rightarrow> Config \<Rightarrow> error + Moment2ElementBase" where
  "ElementStripper_new k u c = Moment2ElementBase_new k u c"

definition ElementEDipole_new ::
  "constants \<Rightarrow> Moment2ElementBase \<Rightarrow> Config \<Rightarrow> error + Moment2ElementBase" where
  "ElementEDipole_new k u c = Moment2ElementBase_new k u c"

text \<open>\<^verbatim>\<open>ElementGeneric\<close>: the matrix is read from the configuration.\<close>

definition ElementGeneric_new ::
  "constants \<Rightarrow> Moment2ElementBase \<Rightarrow> Config \<Rightarrow> error + Moment2ElementBase" where
  "ElementGeneric_new k u c =
     (case Moment2ElementBase_new k u c of
        Inl err \<Rightarrow> Inl err
      | Inr e \<Rightarrow>
        (case get_vector c ''transfer'' of
           Inl err \<Rightarrow> Inl err
         | Inr I \<Rightarrow>
           if length I > length (transfer_raw e) then Inl invalid_argument
           else Inr (e\<lparr> transfer_raw := copy_into I (transfer_raw e) \<rparr>)))"

text \<open>
  \<^verbatim>\<open>ElementSource\<close>: the base constructor, then the initial state from the same
  configuration (\<open>b\<close> as in \<open>Moment2State_new\<close>).
\<close>

definition ElementSource_new ::
  "constants \<Rightarrow> Moment2ElementBase \<Rightarrow> nat \<Rightarrow> Config \<Rightarrow>
     error + Moment2ElementBase \<times> Moment2State" where
  "ElementSource_new k u b c =
     (case Moment2ElementBase_new k u c of
        Inl err \<Rightarrow> Inl err
      | Inr e \<Rightarrow>
        (case Moment2State_new b c of
           Inl err \<Rightarrow> Inl err
         | Inr istate \<Rightarrow> Inr (e, istate)))"

subsection \<open>The registered element types\<close>

text \<open>
  \<^verbatim>\<open>registerMoment2\<close> registers ten element types under the simulation type
  \<^verbatim>\<open>"MomentMatrix2"\<close>. \<open>build\<close> runs the constructor registered for a type and gives the
  members of the new element, with the initial state a source holds.
\<close>

datatype etype = source | marker | drift | sbend | quadrupole | solenoid | rfcavity
  | stripper | edipole | generic

definition registerMoment2 :: "string \<rightharpoonup> etype" where
  "registerMoment2 =
     [''source'' \<mapsto> source, ''marker'' \<mapsto> marker, ''drift'' \<mapsto> drift, ''sbend'' \<mapsto> sbend,
      ''quadrupole'' \<mapsto> quadrupole, ''solenoid'' \<mapsto> solenoid, ''rfcavity'' \<mapsto> rfcavity,
      ''stripper'' \<mapsto> stripper, ''edipole'' \<mapsto> edipole, ''generic'' \<mapsto> generic]"

definition no_istate ::
  "error + Moment2ElementBase \<Rightarrow> error + Moment2ElementBase \<times> Moment2State option" where
  "no_istate r = (case r of Inl err \<Rightarrow> Inl err | Inr e \<Rightarrow> Inr (e, None))"

fun build ::
  "etype \<Rightarrow> constants \<Rightarrow> Moment2ElementBase \<Rightarrow> nat \<Rightarrow> Config \<Rightarrow>
     error + Moment2ElementBase \<times> Moment2State option" where
  "build source k u b c =
     (case ElementSource_new k u b c of
        Inl err \<Rightarrow> Inl err
      | Inr (e, istate) \<Rightarrow> Inr (e, Some istate))"
| "build marker k u b c = no_istate (ElementMark_new k u c)"
| "build drift k u b c = no_istate (ElementDrift_new k u c)"
| "build sbend k u b c = no_istate (ElementSBend_new k u c)"
| "build quadrupole k u b c = no_istate (ElementQuad_new k u c)"
| "build solenoid k u b c = no_istate (ElementSolenoid_new k u c)"
| "build rfcavity k u b c = no_istate (ElementRFCavity_new k u c)"
| "build stripper k u b c = no_istate (ElementStripper_new k u c)"
| "build edipole k u b c = no_istate (ElementEDipole_new k u c)"
| "build generic k u b c = no_istate (ElementGeneric_new k u c)"

subsection \<open>Notions used by the properties\<close>

text \<open>A matrix is symmetric when it is its own transpose.\<close>

definition symmetric :: "value_t \<Rightarrow> bool" where
  "symmetric M = (trans_m M = M)"


text \<open>
  The life of an element of a registered type: it is built by the constructor of its
  type; \<^verbatim>\<open>advance\<close> is virtual, so a cavity is advanced by \<open>ElementRFCavity_advance\<close>, a
  source is left as it is by \<open>ElementSource_advance\<close>, and the other types are advanced by
  the default \<open>Moment2ElementBase_advance\<close>; \<^verbatim>\<open>assign\<close> copies from another element.
\<close>

inductive lifetime :: "etype \<Rightarrow> Moment2ElementBase \<Rightarrow> bool" where
  built: "build t k u b c = Inr (e, istate) \<Longrightarrow> lifetime t e"
| advanced: "lifetime t e \<Longrightarrow> t \<noteq> source \<Longrightarrow> t \<noteq> rfcavity \<Longrightarrow>
     lifetime t (fst (Moment2ElementBase_advance e ST))"
| cavity_advanced: "lifetime rfcavity e \<Longrightarrow> lifetime rfcavity (fst (ElementRFCavity_advance e ST))"
| assigned: "lifetime t e \<Longrightarrow> lifetime t' O' \<Longrightarrow> lifetime t (Moment2ElementBase_assign e O')"

text \<open>
  The transfer matrix of a drift whose length, in millimetres, is \<open>L\<close>: the identity with
  \<open>L\<close> in the two entries that take an angle to a position.
\<close>

definition drift_matrix :: "real \<Rightarrow> value_t" where
  "drift_matrix L = mat_set (mat_set identity_matrix PS_X PS_PX L) PS_Y PS_PY L"

text \<open>
  How often the energy dependent terms are recalculated when a state passes twice in a
  row through an element with the default \<^verbatim>\<open>advance\<close>.
\<close>

definition recalculations :: "Moment2ElementBase \<Rightarrow> Moment2State \<Rightarrow> nat" where
  "recalculations e ST =
     (case Moment2ElementBase_advance e ST of
        (e1, ST1) \<Rightarrow>
          (if energy_changed e ST then 1 else 0) + (if energy_changed e1 ST1 then 1 else 0))"

text \<open>
  What every constructor leaves behind, and what holds of an element from then on: the
  misalignment and its inverse are the identity, \<^verbatim>\<open>transfer_raw\<close> has its 49 entries,
  \<^verbatim>\<open>transfer\<close> has been computed once the keys hold an energy, and the two keys differ by
  the energy gain of the type (1 for a cavity, 0 otherwise).
\<close>

definition fresh :: "Moment2ElementBase \<Rightarrow> bool" where
  "fresh e \<longleftrightarrow> misalign e = identity_matrix \<and> misalign_inv e = identity_matrix \<and>
     length (transfer_raw e) = 49 \<and> last_Kenergy_in e = NaN \<and> last_Kenergy_out e = NaN"

definition kept :: "etype \<Rightarrow> Moment2ElementBase \<Rightarrow> bool" where
  "kept t e \<longleftrightarrow>
     misalign e = identity_matrix \<and> misalign_inv e = identity_matrix \<and>
     length (transfer_raw e) = 49 \<and>
     (last_Kenergy_in e \<noteq> NaN \<longrightarrow> transfer e = transfer_raw e) \<and>
     (if t = rfcavity then last_Kenergy_out e = dbl_add (last_Kenergy_in e) (Num 1)
      else last_Kenergy_out e = last_Kenergy_in e)"

subsection \<open>Example inputs\<close>

text \<open>
  Constants, raw storage (all zero) and a configuration with which the constructors of
  the state, the drift, the quadrupole, the solenoid and the cavity succeed.
\<close>

definition k0 :: constants where
  "k0 = \<lparr> C0 = 299792458, MtoMM = 1000 \<rparr>"

definition u0 :: Moment2ElementBase where
  "u0 = \<lparr> length_e = 0, FSampLength = 0, phase_factor = 0, Erest = 0,
          transfer = replicate 49 0, transfer_raw = replicate 49 0,
          misalign = replicate 49 0, misalign_inv = replicate 49 0,
          scratch = replicate 49 0, last_Kenergy_in = Num 0, last_Kenergy_out = Num 0 \<rparr>"

definition c0 :: Config where
  "c0 = [''name'' \<mapsto> String ''e1'', ''Frf'' \<mapsto> Double 80500000,
         ''IonEs'' \<mapsto> Double 931494000, ''L'' \<mapsto> Double 1,
         ''cavtype'' \<mapsto> String ''0.041QWR'', ''phi'' \<mapsto> Double 1]"

text \<open>The state, the drift and the cavity that the constructors build from \<open>c0\<close>.\<close>

definition s0 :: Moment2State where
  "s0 = \<lparr> next_elem = 0, pos = 1, Ekinetic = Num 0, sync_phase = 0, gamma = 1,
          beta = sqrt 2, moment0 = replicate 7 0, state = identity_matrix \<rparr>"

definition base0 :: Moment2ElementBase where
  "base0 = u0\<lparr> transfer_raw := identity_matrix, misalign := identity_matrix,
               length_e := 1, FSampLength := 299792458 / 80500000 * 1000,
               phase_factor := 1 * 2 * pi / (299792458 / 80500000 * 1000),
               Erest := 931494000, misalign_inv := identity_matrix,
               last_Kenergy_in := NaN, last_Kenergy_out := NaN \<rparr>"

definition drift0 :: Moment2ElementBase where
  "drift0 = base0\<lparr> transfer_raw :=
               mat_set (mat_set identity_matrix PS_X PS_PX 1000) PS_Y PS_PY 1000 \<rparr>"

definition cavity0 :: Moment2ElementBase where
  "cavity0 = base0\<lparr> transfer_raw :=
               mat_set (mat_set identity_matrix PS_X PS_PX 1000) PS_Y PS_PY 1000 \<rparr>"

text \<open>The quadrupole and the solenoid built from \<open>c0\<close>, which has no \<^verbatim>\<open>"K"\<close>.\<close>

definition quad0 :: Moment2ElementBase where
  "quad0 = base0\<lparr> transfer_raw := drift_matrix 1000 \<rparr>"

definition solenoid0 :: Moment2ElementBase where
  "solenoid0 = base0\<lparr> transfer_raw := drift_matrix 1000 \<rparr>"

text \<open>
  Configurations without \<^verbatim>\<open>"IonEs"\<close>, without \<^verbatim>\<open>"Frf"\<close>, with a string under
  \<^verbatim>\<open>"Frf"\<close> and no \<^verbatim>\<open>"IonEs"\<close>, and with a string under \<^verbatim>\<open>"Frf"\<close> and a double under
  \<^verbatim>\<open>"IonEs"\<close>.
\<close>

definition c_no_IonEs :: Config where
  "c_no_IonEs = [''name'' \<mapsto> String ''e1'', ''Frf'' \<mapsto> Double 80500000, ''L'' \<mapsto> Double 1]"

definition c_no_Frf :: Config where
  "c_no_Frf = [''name'' \<mapsto> String ''e1'', ''IonEs'' \<mapsto> Double 931494000, ''L'' \<mapsto> Double 1]"

definition c_bad_Frf :: Config where
  "c_bad_Frf = [''name'' \<mapsto> String ''e1'', ''Frf'' \<mapsto> String ''80.5e6'', ''L'' \<mapsto> Double 1]"

definition c_bad_Frf_IonEs :: Config where
  "c_bad_Frf_IonEs = [''name'' \<mapsto> String ''e1'', ''Frf'' \<mapsto> String ''80.5e6'',
                      ''IonEs'' \<mapsto> Double 931494000, ''L'' \<mapsto> Double 1]"

text \<open>
  A state with the phase 1, built from a configuration that holds only \<^verbatim>\<open>"IonFy"\<close>, and the
  zeroed storage in which it is cloned.
\<close>

definition c_phase :: Config where
  "c_phase = [''IonFy'' \<mapsto> Double 1]"

definition s1 :: Moment2State where
  "s1 = \<lparr> next_elem = 0, pos = 0, Ekinetic = Num 0, sync_phase = 1, gamma = 1,
          beta = sqrt 2, moment0 = replicate 7 0, state = identity_matrix \<rparr>"

definition z0 :: Moment2State where
  "z0 = \<lparr> next_elem = 0, pos = 0, Ekinetic = Num 0, sync_phase = 0, gamma = 0,
          beta = 0, moment0 = [], state = [] \<rparr>"

section \<open>Properties\<close>

subsection \<open>Entries of products and transposes\<close>

lemma length_identity_matrix: "length identity_matrix = 49"
  by (simp add: identity_matrix_def maxsize_def)

lemma length_prod_mm: "length (prod_mm A B) = 49"
  by (simp add: prod_mm_def maxsize_def)

lemma length_trans_m: "length (trans_m A) = 49"
  by (simp add: trans_m_def maxsize_def)

lemma index_bound: "i < 7 \<Longrightarrow> j < 7 \<Longrightarrow> i * 7 + j < (49::nat)"
  by simp

lemma index_lt: "k < 49 \<Longrightarrow> k div 7 < (7::nat) \<and> k mod 7 < 7 \<and> k div 7 * 7 + k mod 7 = k"
  by auto

lemma map_upt_eqI: "length A = n \<Longrightarrow> (\<And>k. k < n \<Longrightarrow> f k = A ! k) \<Longrightarrow> map f [0..<n] = A"
  by (simp add: list_eq_iff_nth_eq)

lemma mat_get_prod_mm:
  assumes "i < 7" and "j < 7"
  shows "mat_get (prod_mm A B) i j = (\<Sum>t\<leftarrow>[0..<7]. mat_get A i t * mat_get B t j)"
  using assms index_bound[OF assms] by (subst mat_get_def) (simp add: prod_mm_def maxsize_def)

lemma mat_get_trans_m:
  assumes "i < 7" and "j < 7"
  shows "mat_get (trans_m A) i j = mat_get A j i"
  using assms index_bound[OF assms] by (subst mat_get_def) (simp add: trans_m_def maxsize_def)

lemma nth_prod_mv: "i < 7 \<Longrightarrow> prod_mv A v ! i = (\<Sum>t\<leftarrow>[0..<7]. mat_get A i t * v ! t)"
  by (simp add: prod_mv_def maxsize_def)

lemma congruence_entry:
  assumes "i < 7" and "j < 7"
  shows "mat_get (prod_mm (prod_mm T S) (trans_m T)) i j =
         (\<Sum>b\<leftarrow>[0..<7]. \<Sum>a\<leftarrow>[0..<7]. mat_get T i a * mat_get S a b * mat_get T j b)"
proof -
  have "mat_get (prod_mm (prod_mm T S) (trans_m T)) i j =
        (\<Sum>b\<leftarrow>[0..<7]. mat_get (prod_mm T S) i b * mat_get (trans_m T) b j)"
    using assms by (rule mat_get_prod_mm)
  also have "\<dots> = (\<Sum>b\<leftarrow>[0..<7]. (\<Sum>a\<leftarrow>[0..<7]. mat_get T i a * mat_get S a b) * mat_get T j b)"
    using assms
    by (intro arg_cong[where f = sum_list] map_cong refl)
       (simp add: mat_get_prod_mm mat_get_trans_m)
  also have "\<dots> = (\<Sum>b\<leftarrow>[0..<7]. \<Sum>a\<leftarrow>[0..<7]. mat_get T i a * mat_get S a b * mat_get T j b)"
    by (simp only: sum_list_mult_const)
  finally show ?thesis .
qed

subsection \<open>What \<open>advance\<close> does to the state and to the element\<close>

lemma propagate_moments_state:
  "snd (propagate_moments e ST) =
     ST\<lparr> pos := pos ST + length_e e, Ekinetic := last_Kenergy_out e,
         sync_phase := sync_phase ST + phase_factor e / beta ST,
         moment0 := prod_mv (transfer e) (moment0 ST),
         state := prod_mm (prod_mm (transfer e) (state ST)) (trans_m (transfer e)) \<rparr>"
  by (simp add: propagate_moments_def Let_def)

lemma propagate_moments_elem:
  "fst (propagate_moments e ST) = e\<lparr> scratch := prod_mm (transfer e) (state ST) \<rparr>"
  by (simp add: propagate_moments_def Let_def)

lemma advance_snd:
  "snd (Moment2ElementBase_advance e ST) =
     ST\<lparr> pos := pos ST + length_e e,
         Ekinetic := last_Kenergy_out (fst (Moment2ElementBase_advance e ST)),
         sync_phase := sync_phase ST + phase_factor e / beta ST,
         moment0 := prod_mv (transfer (fst (Moment2ElementBase_advance e ST))) (moment0 ST),
         state := prod_mm (prod_mm (transfer (fst (Moment2ElementBase_advance e ST))) (state ST))
                    (trans_m (transfer (fst (Moment2ElementBase_advance e ST)))) \<rparr>"
  by (simp add: Moment2ElementBase_advance_def propagate_moments_state
        propagate_moments_elem Let_def)

text \<open>
  Claim C1. For every state and every element with the default \<^verbatim>\<open>advance\<close>, the call
  changes the state in exactly this way: the position grows by the length of the
  element, the kinetic energy becomes the element's \<^verbatim>\<open>last_Kenergy_out\<close>, the phase
  grows by \<^verbatim>\<open>phase_factor\<close> divided by the \<^verbatim>\<open>beta\<close> of the state, \<^verbatim>\<open>moment0\<close> becomes
  \<open>transfer \<cdot> moment0\<close> and the second moments become \<open>transfer \<cdot> state \<cdot> transfer\<^sup>T\<close>, both
  also entry by entry as sums; every other member of the state keeps its value. The
  element's keys and \<^verbatim>\<open>transfer\<close> are those after the recalculation, if there is one.
  The quotient is a quotient of real numbers, so the state's \<^verbatim>\<open>beta\<close> is taken to be
  non-zero.
\<close>

theorem advance_updates_state:
  assumes "beta ST \<noteq> 0"
  shows "case Moment2ElementBase_advance e ST of (e', ST') \<Rightarrow>
     ST' = ST\<lparr> pos := pos ST + length_e e,
               Ekinetic := last_Kenergy_out e',
               sync_phase := sync_phase ST + phase_factor e / beta ST,
               moment0 := prod_mv (transfer e') (moment0 ST),
               state := prod_mm (prod_mm (transfer e') (state ST)) (trans_m (transfer e')) \<rparr>
     \<and> (\<forall>i<maxsize. moment0 ST' ! i =
           (\<Sum>a\<leftarrow>[0..<maxsize]. mat_get (transfer e') i a * moment0 ST ! a))
     \<and> (\<forall>i<maxsize. \<forall>j<maxsize. mat_get (state ST') i j =
           (\<Sum>b\<leftarrow>[0..<maxsize]. \<Sum>a\<leftarrow>[0..<maxsize].
              mat_get (transfer e') i a * mat_get (state ST) a b * mat_get (transfer e') j b))"
proof -
  obtain e' ST' where r: "Moment2ElementBase_advance e ST = (e', ST')"
    by (cases "Moment2ElementBase_advance e ST")
  have e': "e' = fst (Moment2ElementBase_advance e ST)"
    and ST': "ST' = snd (Moment2ElementBase_advance e ST)"
    using r by simp_all
  have 1: "ST' = ST\<lparr> pos := pos ST + length_e e,
               Ekinetic := last_Kenergy_out e',
               sync_phase := sync_phase ST + phase_factor e / beta ST,
               moment0 := prod_mv (transfer e') (moment0 ST),
               state := prod_mm (prod_mm (transfer e') (state ST)) (trans_m (transfer e')) \<rparr>"
    unfolding e' ST' by (rule advance_snd)
  have 2: "\<forall>i<maxsize. moment0 ST' ! i =
           (\<Sum>a\<leftarrow>[0..<maxsize]. mat_get (transfer e') i a * moment0 ST ! a)"
    by (subst 1) (simp add: maxsize_def nth_prod_mv)
  have 3: "\<forall>i<maxsize. \<forall>j<maxsize. mat_get (state ST') i j =
           (\<Sum>b\<leftarrow>[0..<maxsize]. \<Sum>a\<leftarrow>[0..<maxsize].
              mat_get (transfer e') i a * mat_get (state ST) a b * mat_get (transfer e') j b)"
    by (subst 1) (simp add: maxsize_def congruence_entry)
  show ?thesis unfolding r using 1 2 3 by simp
qed

theorem advance_updates_state_witness:
  "beta s0 \<noteq> 0 \<and>
   pos (snd (Moment2ElementBase_advance drift0 s0)) = 2 \<and>
   Ekinetic (snd (Moment2ElementBase_advance drift0 s0)) = Num 0 \<and>
   gamma (snd (Moment2ElementBase_advance drift0 s0)) = 1"
proof -
  have h: "beta s0 \<noteq> 0" by (simp add: s0_def)
  have k: "last_Kenergy_out (fst (Moment2ElementBase_advance drift0 s0)) = Num 0"
    by (simp add: Moment2ElementBase_advance_def propagate_moments_elem energy_changed_def
          drift0_def base0_def s0_def Let_def)
  have l: "pos s0 + length_e drift0 = 2"
    by (simp add: s0_def drift0_def base0_def)
  have g: "gamma s0 = 1" by (simp add: s0_def)
  show ?thesis
    using h k l g advance_updates_state [OF h, of drift0]
    by (simp add: split_beta)
qed

subsection \<open>The identity matrix\<close>

lemma mat_get_identity:
  assumes "i < 7" and "j < 7"
  shows "mat_get identity_matrix i j = (if i = j then 1 else 0)"
  using assms index_bound[OF assms] by (simp add: mat_get_def identity_matrix_def maxsize_def)

lemma mat_eqI:
  assumes "length A = 49" and "length B = 49"
    and "\<And>i j. i < 7 \<Longrightarrow> j < 7 \<Longrightarrow> mat_get A i j = mat_get B i j"
  shows "A = B"
proof (rule nth_equalityI)
  show "length A = length B" using assms by simp
next
  fix k assume "k < length A"
  then have k: "k < 49" using assms by simp
  from assms(3)[of "k div 7" "k mod 7"] index_lt[OF k]
  show "A ! k = B ! k" by (simp add: mat_get_def maxsize_def)
qed

lemma sum_list_delta_left:
  assumes "i < n"
  shows "(\<Sum>t\<leftarrow>[0..<n]. (if i = t then 1 else 0) * f t) = (f i :: real)"
proof -
  have eq: "\<And>t. (if i = t then 1 else 0) * f t = (if t = i then f t else 0)"
    by simp
  have "(\<Sum>t\<leftarrow>[0..<n]. (if i = t then 1 else 0) * f t) = (\<Sum>t = 0..<n. if t = i then f t else 0)"
    by (simp only: eq interv_sum_list_conv_sum_set_nat set_upt)
  also have "\<dots> = f i" using assms by simp
  finally show ?thesis .
qed

lemma sum_list_delta_right:
  assumes "j < n"
  shows "(\<Sum>t\<leftarrow>[0..<n]. f t * (if t = j then 1 else 0)) = (f j :: real)"
proof -
  have eq: "\<And>t. f t * (if t = j then 1 else 0) = (if t = j then f t else 0)"
    by simp
  have "(\<Sum>t\<leftarrow>[0..<n]. f t * (if t = j then 1 else 0)) = (\<Sum>t = 0..<n. if t = j then f t else 0)"
    by (simp only: eq interv_sum_list_conv_sum_set_nat set_upt)
  also have "\<dots> = f j" using assms by simp
  finally show ?thesis .
qed

lemma prod_mm_identity_left:
  assumes "length M = 49"
  shows "prod_mm identity_matrix M = M"
proof (rule mat_eqI)
  fix i j :: nat assume i: "i < 7" and j: "j < 7"
  have "mat_get (prod_mm identity_matrix M) i j =
        (\<Sum>t\<leftarrow>[0..<7]. (if i = t then 1 else 0) * mat_get M t j)"
    unfolding mat_get_prod_mm[OF i j] using i
    by (intro arg_cong[where f = sum_list] map_cong refl) (simp add: mat_get_identity)
  then show "mat_get (prod_mm identity_matrix M) i j = mat_get M i j"
    using i by (simp add: sum_list_delta_left)
qed (simp_all add: length_prod_mm assms)

lemma prod_mm_identity_right:
  assumes "length M = 49"
  shows "prod_mm M identity_matrix = M"
proof (rule mat_eqI)
  fix i j :: nat assume i: "i < 7" and j: "j < 7"
  have "mat_get (prod_mm M identity_matrix) i j =
        (\<Sum>t\<leftarrow>[0..<7]. mat_get M i t * (if t = j then 1 else 0))"
    unfolding mat_get_prod_mm[OF i j] using j
    by (intro arg_cong[where f = sum_list] map_cong refl) (simp add: mat_get_identity)
  then show "mat_get (prod_mm M identity_matrix) i j = mat_get M i j"
    using j by (simp add: sum_list_delta_right)
qed (simp_all add: length_prod_mm assms)

subsection \<open>Symmetry of the second moments\<close>

lemma symmetric_entries:
  assumes "symmetric S" and "a < 7" and "b < 7"
  shows "mat_get S a b = mat_get S b a"
proof -
  have "mat_get S a b = mat_get (trans_m S) a b" using assms(1) by (simp add: symmetric_def)
  then show ?thesis using assms(2,3) by (simp add: mat_get_trans_m)
qed

lemma symmetricI:
  assumes "length X = 49" and "\<And>i j. i < 7 \<Longrightarrow> j < 7 \<Longrightarrow> mat_get X j i = mat_get X i j"
  shows "symmetric X"
  unfolding symmetric_def trans_m_def maxsize_def
proof (rule map_upt_eqI)
  show "length X = 7 * 7" using assms(1) by simp
next
  fix k :: nat assume "k < 7 * 7"
  then have k: "k < 49" by simp
  have "mat_get X (k mod 7) (k div 7) = mat_get X (k div 7) (k mod 7)"
    using index_lt[OF k] assms(2) by simp
  also have "\<dots> = X ! k" using index_lt[OF k] by (simp add: mat_get_def maxsize_def)
  finally show "mat_get X (k mod 7) (k div 7) = X ! k" .
qed

lemma congruence_symmetric:
  assumes "symmetric S"
  shows "symmetric (prod_mm (prod_mm T S) (trans_m T))"
proof (rule symmetricI)
  show "length (prod_mm (prod_mm T S) (trans_m T)) = 49" by (rule length_prod_mm)
next
  fix i j :: nat assume i: "i < 7" and j: "j < 7"
  have "mat_get (prod_mm (prod_mm T S) (trans_m T)) j i =
        (\<Sum>b = 0..<7. \<Sum>a = 0..<7. mat_get T j a * mat_get S a b * mat_get T i b)"
    using i j by (simp add: congruence_entry interv_sum_list_conv_sum_set_nat)
  also have "\<dots> = (\<Sum>a = 0..<7. \<Sum>b = 0..<7. mat_get T j a * mat_get S a b * mat_get T i b)"
    by (rule sum.swap)
  also have "\<dots> = (\<Sum>a = 0..<7. \<Sum>b = 0..<7. mat_get T i b * mat_get S b a * mat_get T j a)"
    using assms by (intro sum.cong refl) (simp add: symmetric_entries[of S] mult_ac)
  also have "\<dots> = mat_get (prod_mm (prod_mm T S) (trans_m T)) i j"
    using i j by (simp add: congruence_entry interv_sum_list_conv_sum_set_nat)
  finally show "mat_get (prod_mm (prod_mm T S) (trans_m T)) j i =
                mat_get (prod_mm (prod_mm T S) (trans_m T)) i j" .
qed

lemma symmetric_identity: "symmetric identity_matrix"
  by (rule symmetricI) (auto simp: length_identity_matrix mat_get_identity)

text \<open>
  Claim C6. If the second-moment matrix of a state is symmetric before the default
  \<^verbatim>\<open>advance\<close>, it is symmetric after it (over the real numbers).
\<close>

theorem advance_preserves_symmetry:
  assumes "symmetric (state ST)"
  shows "symmetric (state (snd (Moment2ElementBase_advance e ST)))"
  by (subst advance_snd) (simp add: congruence_symmetric[OF assms])

theorem advance_preserves_symmetry_witness:
  "symmetric (state s0) \<and> symmetric (state (snd (Moment2ElementBase_advance drift0 s0)))"
proof -
  have h: "symmetric (state s0)" by (simp add: s0_def symmetric_identity)
  show ?thesis using h advance_preserves_symmetry [OF h, of drift0] by simp
qed

subsection \<open>The clone constructor\<close>

lemma state_new_c_phase: "Moment2State_new 0 c_phase = Inr s1"
  by (simp add: Moment2State_new_def read_initial_def get_vector_def get_double_def getAny_def
        c_phase_def s1_def get_double_def_def Let_def maxsize_def)

text \<open>
  Claim C8 says that the clone holds a copy of every member of its source: position,
  kinetic energy, phase, gamma, beta, first and second moments. The constructor copies
  the position, the kinetic energy and the two moments; the phase, gamma and beta of the
  clone are what the storage held, whatever the source holds. The clone of \<open>s1\<close> in
  zeroed storage has the phase, gamma and beta 0, where \<open>s1\<close> has 1, 1 and \<open>sqrt 2\<close>.
\<close>

theorem clone_copies_four_members:
  "pos (Moment2State_clone u o') = pos o' \<and>
   Ekinetic (Moment2State_clone u o') = Ekinetic o' \<and>
   moment0 (Moment2State_clone u o') = moment0 o' \<and>
   state (Moment2State_clone u o') = state o' \<and>
   sync_phase (Moment2State_clone u o') = sync_phase u \<and>
   gamma (Moment2State_clone u o') = gamma u \<and>
   beta (Moment2State_clone u o') = beta u \<and>
   Moment2State_new 0 c_phase = Inr s1 \<and>
   sync_phase s1 = 1 \<and> sync_phase (Moment2State_clone z0 s1) = 0 \<and>
   gamma s1 = 1 \<and> gamma (Moment2State_clone z0 s1) = 0 \<and>
   beta s1 = sqrt 2 \<and> beta (Moment2State_clone z0 s1) = 0"
  by (simp add: Moment2State_clone_def state_new_c_phase) (simp add: s1_def z0_def)

subsection \<open>Inverting the identity\<close>

lemma identity_nth: "k < 49 \<Longrightarrow> identity_matrix ! k = (if k div 7 = k mod 7 then 1 else 0)"
  by (simp add: identity_matrix_def maxsize_def)

lemma scale_column_identity: "i < 7 \<Longrightarrow> scale_column identity_matrix i = identity_matrix"
  unfolding scale_column_def maxsize_def
  by (rule map_upt_eqI) (auto simp: length_identity_matrix identity_nth Let_def)

lemma minus_outer_prod_identity: "i < 7 \<Longrightarrow> minus_outer_prod identity_matrix i = identity_matrix"
  unfolding minus_outer_prod_def maxsize_def
  by (rule map_upt_eqI) (use index_lt in \<open>auto simp: length_identity_matrix mat_get_identity Let_def\<close>)

lemma fold_norm_inf:
  assumes "0 < n" and "\<bar>v ! 0\<bar> = 1" and "\<And>j. j < n \<Longrightarrow> \<bar>v ! j\<bar> \<le> 1"
  shows "fold (\<lambda>i (im, t). if \<bar>v ! i\<bar> > t then (i, \<bar>v ! i\<bar>) else (im, t)) [0..<n] (0, 0) = (0, 1::real)"
  using assms
proof (induction n)
  case 0
  then show ?case by simp
next
  case (Suc n)
  show ?case
  proof (cases "n = 0")
    case True
    then show ?thesis using Suc.prems by simp
  next
    case False
    then have "fold (\<lambda>i (im, t). if \<bar>v ! i\<bar> > t then (i, \<bar>v ! i\<bar>) else (im, t)) [0..<n] (0, 0) = (0, 1::real)"
      using Suc by simp
    moreover have "\<not> \<bar>v ! n\<bar> > 1" using Suc.prems(3)[of n] by simp
    ultimately show ?thesis by simp
  qed
qed

lemma index_norm_inf_identity_column:
  assumes "i < 7"
  shows "index_norm_inf (map (\<lambda>r. mat_get identity_matrix r i) [i..<maxsize]) = 0"
proof -
  let ?v = "map (\<lambda>r. mat_get identity_matrix r i) [i..<7]"
  have "fold (\<lambda>j (im, t). if \<bar>?v ! j\<bar> > t then (j, \<bar>?v ! j\<bar>) else (im, t)) [0..<7 - i] (0, 0) = (0, 1::real)"
    using assms by (intro fold_norm_inf) (auto simp: mat_get_identity)
  then show ?thesis by (simp add: index_norm_inf_def maxsize_def)
qed

lemma lu_step_identity: "i < 7 \<Longrightarrow> lu_step i (identity_matrix, pm, 0) = (identity_matrix, pm, 0)"
  by (simp add: lu_step_def index_norm_inf_identity_column mat_get_identity
        scale_column_identity minus_outer_prod_identity)

lemma fold_fixed: "(\<And>x. x \<in> set xs \<Longrightarrow> f x s = s) \<Longrightarrow> fold f xs s = s"
  by (induction xs) simp_all

lemma lu_factorize_identity: "lu_factorize identity_matrix = (identity_matrix, [0..<maxsize], 0)"
  unfolding lu_factorize_def by (rule fold_fixed) (simp add: lu_step_identity maxsize_def)

lemma apply_permutation_id: "apply_permutation [0..<n] M = M"
  unfolding apply_permutation_def by (rule fold_fixed) simp

lemma solve_unit_lower_step_identity:
  "n < 7 \<Longrightarrow> solve_unit_lower_step identity_matrix n identity_matrix = identity_matrix"
  unfolding solve_unit_lower_step_def maxsize_def
  by (rule map_upt_eqI) (use index_lt in \<open>auto simp: length_identity_matrix mat_get_identity Let_def\<close>)

lemma solve_upper_step_identity:
  "n < 7 \<Longrightarrow> solve_upper_step identity_matrix n identity_matrix = identity_matrix"
  unfolding solve_upper_step_def maxsize_def
  by (rule map_upt_eqI)
     (use index_lt in \<open>auto simp: length_identity_matrix mat_get_identity identity_nth Let_def\<close>)

lemma lu_substitute_identity:
  "lu_substitute identity_matrix [0..<maxsize] identity_matrix = identity_matrix"
proof -
  have l: "fold (solve_unit_lower_step identity_matrix) [0..<maxsize] identity_matrix = identity_matrix"
    by (rule fold_fixed) (simp add: solve_unit_lower_step_identity maxsize_def)
  have u: "fold (solve_upper_step identity_matrix) (rev [0..<maxsize]) identity_matrix = identity_matrix"
    by (rule fold_fixed) (simp add: solve_upper_step_identity maxsize_def)
  show ?thesis by (simp add: lu_substitute_def apply_permutation_id l u)
qed

lemma inverse_m_identity: "inverse_m identity_matrix = Inr identity_matrix"
  by (simp add: inverse_m_def lu_factorize_identity lu_substitute_identity)

subsection \<open>What the constructors establish\<close>

lemma length_mat_set: "length (mat_set M i j v) = length M"
  by (simp add: mat_set_def)

lemma length_Get2by2Matrix: "length (Get2by2Matrix L K ind M) = length M"
  by (simp add: Get2by2Matrix_def Let_def length_mat_set)

lemma length_solenoid_matrix: "length (solenoid_matrix L K M) = length M"
  by (simp add: solenoid_matrix_def Let_def length_mat_set)

lemma length_copy_into: "length I \<le> length dst \<Longrightarrow> length (copy_into I dst) = length dst"
  by (simp add: copy_into_def)

lemma base_new_fresh:
  assumes "Moment2ElementBase_new k u c = Inr e"
  shows "fresh e"
  using assms
  by (auto simp: Moment2ElementBase_new_def Let_def inverse_m_identity fresh_def
        length_identity_matrix split: sum.splits)

lemma build_fresh:
  assumes "build t k u b c = Inr (e, istate)"
  shows "fresh e"
proof (cases t)
  case source
  then show ?thesis using assms
    by (auto simp: ElementSource_new_def split: sum.splits dest: base_new_fresh)
next
  case marker
  then show ?thesis using assms
    by (auto simp: no_istate_def ElementMark_new_def fresh_def split: sum.splits dest!: base_new_fresh)
next
  case drift
  then show ?thesis using assms
    by (auto simp: no_istate_def ElementDrift_new_def fresh_def Let_def length_mat_set
          split: sum.splits dest!: base_new_fresh)
next
  case sbend
  then show ?thesis using assms
    by (auto simp: no_istate_def ElementSBend_new_def fresh_def Let_def length_Get2by2Matrix
          split: sum.splits dest!: base_new_fresh)
next
  case quadrupole
  then show ?thesis using assms
    by (auto simp: no_istate_def ElementQuad_new_def fresh_def Let_def length_Get2by2Matrix
          split: sum.splits dest!: base_new_fresh)
next
  case solenoid
  then show ?thesis using assms
    by (auto simp: no_istate_def ElementSolenoid_new_def fresh_def Let_def length_solenoid_matrix
          split: sum.splits dest!: base_new_fresh)
next
  case rfcavity
  then show ?thesis using assms
    by (auto simp: no_istate_def ElementRFCavity_new_def fresh_def Let_def length_mat_set
          split: sum.splits dest!: base_new_fresh)
next
  case stripper
  then show ?thesis using assms
    by (auto simp: no_istate_def ElementStripper_new_def split: sum.splits dest: base_new_fresh)
next
  case edipole
  then show ?thesis using assms
    by (auto simp: no_istate_def ElementEDipole_new_def split: sum.splits dest: base_new_fresh)
next
  case generic
  then show ?thesis using assms
    by (auto simp: no_istate_def ElementGeneric_new_def fresh_def length_copy_into
          split: sum.splits if_splits dest!: base_new_fresh)
qed

subsection \<open>The examples are what the constructors build\<close>

lemma base_new_c0: "Moment2ElementBase_new k0 u0 c0 = Inr base0"
  by (simp add: Moment2ElementBase_new_def get_double_def getAny_def c0_def k0_def base0_def
        inverse_m_identity get_double_def_def Let_def)

lemma state_new_c0: "Moment2State_new 0 c0 = Inr s0"
  by (simp add: Moment2State_new_def read_initial_def get_vector_def get_double_def getAny_def
        c0_def s0_def get_double_def_def Let_def maxsize_def)

lemma drift_new_c0: "ElementDrift_new k0 u0 c0 = Inr drift0"
proof -
  have "MtoMM k0 = 1000" by (simp add: k0_def)
  then show ?thesis
    by (simp add: ElementDrift_new_def base_new_c0 Let_def drift0_def base0_def)
qed

lemma cavity_new_c0: "ElementRFCavity_new k0 u0 c0 = Inr cavity0"
proof -
  have "MtoMM k0 = 1000" by (simp add: k0_def)
  moreover have "get_string c0 ''cavtype'' = Inr ''0.041QWR''"
    by (simp add: get_string_def getAny_def c0_def)
  moreover have "get_double c0 ''L'' = Inr 1"
    by (simp add: get_double_def getAny_def c0_def)
  ultimately show ?thesis
    by (simp add: ElementRFCavity_new_def base_new_c0 Let_def cavity0_def base0_def)
qed

lemma lifetime_drift0: "lifetime drift drift0"
  by (rule lifetime.built[of drift k0 u0 0 c0 drift0 None])
     (simp add: drift_new_c0 no_istate_def)

lemma lifetime_cavity0: "lifetime rfcavity cavity0"
  by (rule lifetime.built[of rfcavity k0 u0 0 c0 cavity0 None])
     (simp add: cavity_new_c0 no_istate_def)

subsection \<open>What holds during the life of an element\<close>

lemma advance_fst:
  "fst (Moment2ElementBase_advance e ST) =
     (if energy_changed e ST then
        e\<lparr> transfer_raw := mat_set (transfer_raw e) PS_S PS_PS (energy_term e ST),
           transfer := prod_mm (prod_mm (misalign e)
                         (mat_set (transfer_raw e) PS_S PS_PS (energy_term e ST)))
                         (misalign_inv e),
           last_Kenergy_in := Ekinetic ST, last_Kenergy_out := Ekinetic ST,
           scratch := prod_mm
              (prod_mm (prod_mm (misalign e)
                         (mat_set (transfer_raw e) PS_S PS_PS (energy_term e ST)))
                         (misalign_inv e)) (state ST) \<rparr>
      else e\<lparr> scratch := prod_mm (transfer e) (state ST) \<rparr>)"
  by (simp add: Moment2ElementBase_advance_def propagate_moments_elem Let_def)

lemma cavity_advance_snd:
  "snd (ElementRFCavity_advance e ST) =
     ST\<lparr> pos := pos ST + length_e e,
         Ekinetic := last_Kenergy_out (fst (ElementRFCavity_advance e ST)),
         sync_phase := sync_phase ST + phase_factor e / beta ST,
         moment0 := prod_mv (transfer (fst (ElementRFCavity_advance e ST))) (moment0 ST),
         state := prod_mm (prod_mm (transfer (fst (ElementRFCavity_advance e ST))) (state ST))
                    (trans_m (transfer (fst (ElementRFCavity_advance e ST)))) \<rparr>"
  by (simp add: ElementRFCavity_advance_def propagate_moments_state
        propagate_moments_elem Let_def)

lemma cavity_advance_fst:
  "fst (ElementRFCavity_advance e ST) =
     (if energy_changed e ST then
        e\<lparr> transfer_raw := mat_set (transfer_raw e) PS_S PS_PS (energy_term e ST),
           transfer := mat_set (transfer_raw e) PS_S PS_PS (energy_term e ST),
           last_Kenergy_in := Ekinetic ST, last_Kenergy_out := dbl_add (Ekinetic ST) (Num 1),
           scratch := prod_mm (mat_set (transfer_raw e) PS_S PS_PS (energy_term e ST)) (state ST) \<rparr>
      else e\<lparr> scratch := prod_mm (transfer e) (state ST) \<rparr>)"
  by (simp add: ElementRFCavity_advance_def propagate_moments_elem Let_def)

lemma not_changed_Num: "\<not> dbl_ne a b \<Longrightarrow> \<exists>x. a = Num x \<and> b = Num x"
  by (cases a; cases b) simp_all

lemma advance_kept:
  assumes "kept t e" and "t \<noteq> rfcavity"
  shows "kept t (fst (Moment2ElementBase_advance e ST))"
proof (cases "energy_changed e ST")
  case True
  have m: "misalign e = identity_matrix" "misalign_inv e = identity_matrix"
    and l: "length (transfer_raw e) = 49"
    using assms(1) by (simp_all add: kept_def)
  have "prod_mm (prod_mm identity_matrix (mat_set (transfer_raw e) PS_S PS_PS (energy_term e ST)))
          identity_matrix = mat_set (transfer_raw e) PS_S PS_PS (energy_term e ST)"
    by (simp add: prod_mm_identity_left prod_mm_identity_right length_mat_set l)
  then show ?thesis using True assms(2) m l
    by (simp add: kept_def advance_fst length_mat_set)
next
  case False
  then obtain x where "last_Kenergy_in e = Num x"
    by (auto simp: energy_changed_def dest: not_changed_Num)
  then show ?thesis using False assms by (simp add: kept_def advance_fst)
qed

lemma cavity_advance_kept:
  assumes "kept rfcavity e"
  shows "kept rfcavity (fst (ElementRFCavity_advance e ST))"
proof (cases "energy_changed e ST")
  case True
  then show ?thesis using assms by (simp add: kept_def cavity_advance_fst length_mat_set)
next
  case False
  then show ?thesis using assms by (simp add: kept_def cavity_advance_fst)
qed

lemma assign_kept:
  assumes "kept t e" and "kept t' O'"
  shows "kept t (Moment2ElementBase_assign e O')"
  using assms by (simp add: kept_def Moment2ElementBase_assign_def)

lemma lifetime_kept:
  assumes "lifetime t e"
  shows "kept t e"
  using assms
proof (induction rule: lifetime.induct)
  case (built t k u b c e istate)
  then show ?case using build_fresh[OF built] by (simp add: kept_def fresh_def)
next
  case (advanced t e ST)
  then show ?case by (simp add: advance_kept)
next
  case (cavity_advanced e ST)
  then show ?case by (simp add: cavity_advance_kept)
next
  case (assigned t e t' O')
  then show ?case by (simp add: assign_kept)
qed

subsection \<open>Energy, gamma and beta\<close>




subsection \<open>The cavity\<close>

text \<open>
  Claim C4. When the energy of the state differs from the key, the \<^verbatim>\<open>advance\<close> of a
  cavity writes the energy dependent entry of \<^verbatim>\<open>transfer_raw\<close>, takes \<^verbatim>\<open>transfer\<close> to be
  \<^verbatim>\<open>transfer_raw\<close> itself (no product with the misalignment and its inverse), and sets
  \<^verbatim>\<open>last_Kenergy_in\<close> to the energy of the state and \<^verbatim>\<open>last_Kenergy_out\<close> to that plus 1.
  After every pass through a cavity the kinetic energy of the state is the cached input
  energy plus 1.
\<close>

theorem cavity_advance_energy:
  assumes "lifetime rfcavity e"
  shows "case ElementRFCavity_advance e ST of (e', ST') \<Rightarrow>
     (energy_changed e ST \<longrightarrow>
        transfer_raw e' = mat_set (transfer_raw e) PS_S PS_PS (energy_term e ST) \<and>
        transfer e' = transfer_raw e' \<and>
        last_Kenergy_in e' = Ekinetic ST \<and>
        last_Kenergy_out e' = dbl_add (last_Kenergy_in e') (Num 1)) \<and>
     Ekinetic ST' = dbl_add (last_Kenergy_in e') (Num 1) \<and>
     (\<forall>x. last_Kenergy_in e' = Num x \<longrightarrow> Ekinetic ST' = Num (x + 1))"
proof -
  have k: "last_Kenergy_out e = dbl_add (last_Kenergy_in e) (Num 1)"
    using lifetime_kept[OF assms] by (simp add: kept_def)
  obtain e' ST' where r: "ElementRFCavity_advance e ST = (e', ST')"
    by (cases "ElementRFCavity_advance e ST")
  have e': "e' = fst (ElementRFCavity_advance e ST)"
    and ST': "ST' = snd (ElementRFCavity_advance e ST)"
    using r by simp_all
  have E: "Ekinetic ST' = last_Kenergy_out e'"
    unfolding ST' e' by (subst cavity_advance_snd) simp
  have o: "last_Kenergy_out e' = dbl_add (last_Kenergy_in e') (Num 1)"
    unfolding e' using k by (simp add: cavity_advance_fst)
  have m: "energy_changed e ST \<longrightarrow>
        transfer_raw e' = mat_set (transfer_raw e) PS_S PS_PS (energy_term e ST) \<and>
        transfer e' = transfer_raw e' \<and> last_Kenergy_in e' = Ekinetic ST"
    unfolding e' by (simp add: cavity_advance_fst)
  show ?thesis unfolding r using E o m by auto
qed

theorem cavity_advance_energy_witness:
  "lifetime rfcavity cavity0 \<and> energy_changed cavity0 s0 \<and>
   last_Kenergy_in (fst (ElementRFCavity_advance cavity0 s0)) = Num 0 \<and>
   Ekinetic (snd (ElementRFCavity_advance cavity0 s0)) = Num 1"
proof -
  have c: "energy_changed cavity0 s0"
    by (simp add: energy_changed_def cavity0_def base0_def)
  have E: "Ekinetic s0 = Num 0" by (simp add: s0_def)
  show ?thesis
    using c E lifetime_cavity0 cavity_advance_energy [OF lifetime_cavity0, of s0]
    by (simp add: split_beta)
qed

subsection \<open>Quadrupole and solenoid without field\<close>

lemma Get2by2Matrix_K0:
  "Get2by2Matrix L 0 ind M =
     mat_set (mat_set (mat_set (mat_set M (ind + 1) (ind + 1) 1) ind ind 1) ind (ind + 1) L)
       (ind + 1) ind 0"
  by (simp add: Get2by2Matrix_def)

lemma quad_matrix_K0:
  "Get2by2Matrix L (- 0) PS_Y (Get2by2Matrix L 0 PS_X identity_matrix) = drift_matrix L"
proof (rule nth_equalityI)
  show "length (Get2by2Matrix L (- 0) PS_Y (Get2by2Matrix L 0 PS_X identity_matrix)) =
        length (drift_matrix L)"
    by (simp add: length_Get2by2Matrix drift_matrix_def length_mat_set)
next
  fix n assume "n < length (Get2by2Matrix L (- 0) PS_Y (Get2by2Matrix L 0 PS_X identity_matrix))"
  then have n: "n < 49" by (simp add: length_Get2by2Matrix length_identity_matrix)
  then show "Get2by2Matrix L (- 0) PS_Y (Get2by2Matrix L 0 PS_X identity_matrix) ! n =
        drift_matrix L ! n"
    by (simp add: Get2by2Matrix_K0 drift_matrix_def mat_set_def PS_X_def PS_PX_def PS_Y_def
          PS_PY_def maxsize_def nth_list_update length_identity_matrix identity_nth)
qed

lemma solenoid_matrix_K0: "solenoid_matrix L 0 identity_matrix = drift_matrix L"
proof (rule nth_equalityI)
  show "length (solenoid_matrix L 0 identity_matrix) = length (drift_matrix L)"
    by (simp add: length_solenoid_matrix drift_matrix_def length_mat_set)
next
  fix n assume "n < length (solenoid_matrix L 0 identity_matrix)"
  then have n: "n < 49" by (simp add: length_solenoid_matrix length_identity_matrix)
  then show "solenoid_matrix L 0 identity_matrix ! n = drift_matrix L ! n"
    by (simp add: solenoid_matrix_def drift_matrix_def mat_set_def PS_X_def PS_PX_def PS_Y_def
          PS_PY_def maxsize_def nth_list_update length_identity_matrix identity_nth Let_def)
qed

lemma drift_matrix_nth:
  "n < 49 \<Longrightarrow> drift_matrix L ! n = (if n = 17 \<or> n = 1 then L else identity_matrix ! n)"
  by (simp add: drift_matrix_def mat_set_def PS_X_def PS_PX_def PS_Y_def PS_PY_def
        maxsize_def nth_list_update length_identity_matrix)

lemma drift_matrix_entries:
  assumes "i < 7" and "j < 7"
  shows "mat_get (drift_matrix L) i j =
     (if (i = PS_X \<and> j = PS_PX) \<or> (i = PS_Y \<and> j = PS_PY) then L
      else if i = j then 1 else 0)"
proof -
  have a: "i * 7 + j = 1 \<longleftrightarrow> i = 0 \<and> j = 1" using assms by arith
  have b: "i * 7 + j = 17 \<longleftrightarrow> i = 2 \<and> j = 3" using assms by arith
  have c: "identity_matrix ! (i * 7 + j) = (if i = j then 1 else 0)"
    using mat_get_identity[OF assms] by (simp add: mat_get_def maxsize_def)
  have "mat_get (drift_matrix L) i j = drift_matrix L ! (i * 7 + j)"
    by (simp add: mat_get_def maxsize_def)
  also have "\<dots> = (if (i = 2 \<and> j = 3) \<or> (i = 0 \<and> j = 1) then L else if i = j then 1 else 0)"
    by (simp only: drift_matrix_nth[OF index_bound[OF assms]] a b c)
  finally show ?thesis
    by (auto simp: PS_X_def PS_PX_def PS_Y_def PS_PY_def)
qed

lemma base_new_transfer_raw:
  "Moment2ElementBase_new k u c = Inr e \<Longrightarrow>
     transfer_raw e = identity_matrix \<and> length_e e = get_double_def c ''L'' 0"
  by (auto simp: Moment2ElementBase_new_def Let_def split: sum.splits)

lemma get_double_Inr_def: "get_double c n = Inr x \<Longrightarrow> get_double_def c n d = x"
  by (simp add: get_double_def_def)

lemma drift_transfer_raw:
  assumes "ElementDrift_new k u c = Inr d"
  shows "transfer_raw d = drift_matrix (get_double_def c ''L'' 0 * MtoMM k)"
  using assms
  by (auto simp: ElementDrift_new_def Let_def drift_matrix_def split: sum.splits
        dest!: base_new_transfer_raw)

lemma quad_transfer_raw:
  assumes "get_double_def c ''K'' 0 = 0" and "ElementQuad_new k u c = Inr q"
  shows "transfer_raw q = drift_matrix (get_double_def c ''L'' 0 * MtoMM k)"
  using assms quad_matrix_K0
  by (auto simp: ElementQuad_new_def Let_def get_double_Inr_def split: sum.splits
        dest!: base_new_transfer_raw)

lemma solenoid_transfer_raw:
  assumes "get_double_def c ''K'' 0 = 0" and "ElementSolenoid_new k u c = Inr sol"
  shows "transfer_raw sol = drift_matrix (get_double_def c ''L'' 0 * MtoMM k)"
  using assms solenoid_matrix_K0
  by (auto simp: ElementSolenoid_new_def Let_def get_double_Inr_def split: sum.splits
        dest!: base_new_transfer_raw)

lemma c0_values:
  "get_double c0 ''L'' = Inr 1" "get_double_def c0 ''K'' 0 = 0" "get_double_def c0 ''L'' 0 = 1"
  "MtoMM k0 = 1000"
  by (simp_all add: get_double_def get_double_def_def getAny_def c0_def k0_def)

lemma quad_new_c0: "ElementQuad_new k0 u0 c0 = Inr quad0"
  using quad_matrix_K0[of 1000]
  by (simp add: ElementQuad_new_def base_new_c0 c0_values Let_def quad0_def base0_def)

lemma solenoid_new_c0: "ElementSolenoid_new k0 u0 c0 = Inr solenoid0"
  using solenoid_matrix_K0[of 1000]
  by (simp add: ElementSolenoid_new_def base_new_c0 c0_values Let_def solenoid0_def base0_def)

text \<open>
  Claim C3. A quadrupole whose configuration gives \<open>K = 0\<close> has the transfer matrix of a
  drift of the same length: the identity, except that the entries from the horizontal
  and from the vertical angle to the position hold the length in millimetres. The
  factor \<^verbatim>\<open>MtoMM\<close> is taken to be non-zero, since \<open>K\<close> is divided by its square.
\<close>

theorem quad_K0_is_drift:
  assumes "MtoMM k \<noteq> 0" and "get_double_def c ''K'' 0 = 0"
    and "ElementQuad_new k u c = Inr q"
    and "ElementDrift_new k u' c' = Inr d"
    and "get_double_def c' ''L'' 0 = get_double_def c ''L'' 0"
  shows "transfer_raw q = transfer_raw d \<and>
     (\<forall>i<maxsize. \<forall>j<maxsize. mat_get (transfer_raw q) i j =
        (if (i = PS_X \<and> j = PS_PX) \<or> (i = PS_Y \<and> j = PS_PY)
         then get_double_def c ''L'' 0 * MtoMM k
         else if i = j then 1 else 0))"
  using quad_transfer_raw[OF assms(2,3)] drift_transfer_raw[OF assms(4)] assms(5)
  by (simp add: maxsize_def drift_matrix_entries)

theorem quad_K0_is_drift_witness:
  "MtoMM k0 \<noteq> 0 \<and> get_double_def c0 ''K'' 0 = 0 \<and>
   ElementQuad_new k0 u0 c0 = Inr quad0 \<and> ElementDrift_new k0 u0 c0 = Inr drift0 \<and>
   transfer_raw quad0 = transfer_raw drift0 \<and>
   mat_get (transfer_raw quad0) PS_X PS_PX = 1000 \<and>
   mat_get (transfer_raw quad0) PS_PX PS_X = 0 \<and>
   mat_get (transfer_raw quad0) PS_Y PS_Y = 1"
proof -
  have m: "MtoMM k0 \<noteq> 0" by (simp add: c0_values)
  have i: "PS_X < maxsize" "PS_PX < maxsize" "PS_Y < maxsize"
    by (simp_all add: PS_X_def PS_PX_def PS_Y_def maxsize_def)
  have n: "PS_X \<noteq> PS_PX" "PS_PX \<noteq> PS_Y" "PS_Y \<noteq> PS_PY"
    by (simp_all add: PS_X_def PS_PX_def PS_Y_def PS_PY_def)
  note t = quad_K0_is_drift [OF m c0_values(2) quad_new_c0 drift_new_c0 refl]
  from t have e: "transfer_raw quad0 = transfer_raw drift0" by (rule conjunct1)
  from t have a: "\<And>i j. i < maxsize \<Longrightarrow> j < maxsize \<Longrightarrow>
      mat_get (transfer_raw quad0) i j =
        (if (i = PS_X \<and> j = PS_PX) \<or> (i = PS_Y \<and> j = PS_PY)
         then get_double_def c0 ''L'' 0 * MtoMM k0
         else if i = j then 1 else 0)"
    by blast
  have 1: "mat_get (transfer_raw quad0) PS_X PS_PX = 1000"
    using a[OF i(1) i(2)] by (simp add: c0_values)
  have 2: "mat_get (transfer_raw quad0) PS_PX PS_X = 0"
    using a[OF i(2) i(1)] n by simp
  have 3: "mat_get (transfer_raw quad0) PS_Y PS_Y = 1"
    using a[OF i(3) i(3)] n by simp
  show ?thesis
    using m e 1 2 3 by (simp only: c0_values quad_new_c0 drift_new_c0 simp_thms)
qed

text \<open>
  Claim C7. A solenoid whose configuration gives \<open>K = 0\<close> has the transverse block of a
  drift of the same length: ones on the diagonal, the length in millimetres from each
  angle to its position, and zero in every entry that couples the two planes.
\<close>

theorem solenoid_K0_is_drift:
  assumes "MtoMM k \<noteq> 0" and "get_double_def c ''K'' 0 = 0"
    and "ElementSolenoid_new k u c = Inr sol"
    and "ElementDrift_new k u' c' = Inr d"
    and "get_double_def c' ''L'' 0 = get_double_def c ''L'' 0"
  shows "\<forall>i\<in>{PS_X, PS_PX, PS_Y, PS_PY}. \<forall>j\<in>{PS_X, PS_PX, PS_Y, PS_PY}.
     mat_get (transfer_raw sol) i j = mat_get (transfer_raw d) i j \<and>
     mat_get (transfer_raw sol) i j =
        (if (i = PS_X \<and> j = PS_PX) \<or> (i = PS_Y \<and> j = PS_PY)
         then get_double_def c ''L'' 0 * MtoMM k
         else if i = j then 1 else 0)"
proof -
  have "\<forall>i\<in>{PS_X, PS_PX, PS_Y, PS_PY}. i < 7"
    by (simp add: PS_X_def PS_PX_def PS_Y_def PS_PY_def)
  then show ?thesis
  using solenoid_transfer_raw[OF assms(2,3)] drift_transfer_raw[OF assms(4)] assms(5)
  by (simp add: drift_matrix_entries)
qed

theorem solenoid_K0_is_drift_witness:
  "MtoMM k0 \<noteq> 0 \<and> get_double_def c0 ''K'' 0 = 0 \<and>
   ElementSolenoid_new k0 u0 c0 = Inr solenoid0 \<and> ElementDrift_new k0 u0 c0 = Inr drift0 \<and>
   mat_get (transfer_raw solenoid0) PS_X PS_PX = mat_get (transfer_raw drift0) PS_X PS_PX \<and>
   mat_get (transfer_raw solenoid0) PS_X PS_PX = 1000 \<and>
   mat_get (transfer_raw solenoid0) PS_X PS_Y = 0 \<and>
   mat_get (transfer_raw solenoid0) PS_PY PS_PY = 1"
proof -
  have m: "MtoMM k0 \<noteq> 0" by (simp add: c0_values)
  have n: "PS_X \<noteq> PS_PX" "PS_X \<noteq> PS_Y" "PS_PX \<noteq> PS_Y" "PS_Y \<noteq> PS_PY"
    "PS_PY \<noteq> PS_X" "PS_PY \<noteq> PS_Y" "PS_Y \<noteq> PS_PX" "PS_Y \<noteq> PS_X"
    by (simp_all add: PS_X_def PS_PX_def PS_Y_def PS_PY_def)
  note t = solenoid_K0_is_drift [OF m c0_values(2) solenoid_new_c0 drift_new_c0 refl]
  from t have a: "\<And>i j. i \<in> {PS_X, PS_PX, PS_Y, PS_PY} \<Longrightarrow> j \<in> {PS_X, PS_PX, PS_Y, PS_PY} \<Longrightarrow>
      mat_get (transfer_raw solenoid0) i j = mat_get (transfer_raw drift0) i j"
    by blast
  from t have b: "\<And>i j. i \<in> {PS_X, PS_PX, PS_Y, PS_PY} \<Longrightarrow> j \<in> {PS_X, PS_PX, PS_Y, PS_PY} \<Longrightarrow>
      mat_get (transfer_raw solenoid0) i j =
        (if (i = PS_X \<and> j = PS_PX) \<or> (i = PS_Y \<and> j = PS_PY)
         then get_double_def c0 ''L'' 0 * MtoMM k0
         else if i = j then 1 else 0)"
    by blast
  have 1: "mat_get (transfer_raw solenoid0) PS_X PS_PX = mat_get (transfer_raw drift0) PS_X PS_PX"
    by (rule a) simp_all
  have 2: "mat_get (transfer_raw solenoid0) PS_X PS_PX = 1000"
    by (subst b) (simp_all add: c0_values)
  have 3: "mat_get (transfer_raw solenoid0) PS_X PS_Y = 0"
    by (subst b) (simp_all add: n)
  have 4: "mat_get (transfer_raw solenoid0) PS_PY PS_PY = 1"
    by (subst b) (simp_all add: n)
  show ?thesis
    using m 1 2 3 4 by (simp only: c0_values solenoid_new_c0 drift_new_c0 simp_thms)
qed

subsection \<open>Missing keys\<close>

lemma build_base_error:
  assumes "Moment2ElementBase_new k u c = Inl err"
  shows "build t k u b c = Inl err"
  using assms
  by (cases t)
     (simp_all add: no_istate_def ElementSource_new_def ElementMark_new_def ElementDrift_new_def
        ElementSBend_new_def ElementQuad_new_def ElementSolenoid_new_def ElementRFCavity_new_def
        ElementStripper_new_def ElementEDipole_new_def ElementGeneric_new_def)

lemma base_new_missing_key:
  assumes "c ''Frf'' = None \<or> c ''IonEs'' = None"
  shows "Moment2ElementBase_new k u c =
     (if c ''Frf'' = None \<or> (\<exists>x. c ''Frf'' = Some (Double x)) then Inl key_error
      else Inl bad_any_cast)"
proof (cases "c ''Frf''")
  case None
  then show ?thesis by (simp add: Moment2ElementBase_new_def get_double_def getAny_def)
next
  case (Some v)
  then have i: "c ''IonEs'' = None" using assms by simp
  show ?thesis using Some i
    by (cases v)
       (simp_all add: Moment2ElementBase_new_def get_double_def getAny_def Let_def)
qed

text \<open>
  Claim C10 says that the construction of an element of any type fails with
  \<^verbatim>\<open>key_error\<close> when \<^verbatim>\<open>"Frf"\<close> or \<^verbatim>\<open>"IonEs"\<close> is missing. With a string under \<^verbatim>\<open>"Frf"\<close>
  and no \<^verbatim>\<open>"IonEs"\<close>, the construction of a marker fails at \<^verbatim>\<open>"Frf"\<close>, which is read
  first, with \<^verbatim>\<open>bad_any_cast\<close>.
\<close>

theorem build_missing_key_counterexample:
  "c_bad_Frf ''IonEs'' = None \<and>
   build marker k0 u0 0 c_bad_Frf = Inl bad_any_cast \<and>
   build marker k0 u0 0 c_bad_Frf \<noteq> Inl key_error"
  by (simp add: no_istate_def ElementMark_new_def Moment2ElementBase_new_def get_double_def
        getAny_def c_bad_Frf_def)

lemma base_new_mistyped_Frf:
  assumes "c ''Frf'' = Some v" and "\<forall>x. v \<noteq> Double x"
  shows "Moment2ElementBase_new k u c = Inl bad_any_cast"
  using assms
  by (cases v) (simp_all add: Moment2ElementBase_new_def get_double_def getAny_def Let_def)

text \<open>
  Claim C10, amended. When \<^verbatim>\<open>"Frf"\<close> or \<^verbatim>\<open>"IonEs"\<close> is missing, the construction of an
  element of any of the ten types fails: with \<^verbatim>\<open>key_error\<close> when \<^verbatim>\<open>"Frf"\<close> is missing or
  holds a double, and with \<^verbatim>\<open>bad_any_cast\<close> when \<^verbatim>\<open>"Frf"\<close> holds a value of another kind.
  A value of another kind under \<^verbatim>\<open>"Frf"\<close> makes the construction fail with
  \<^verbatim>\<open>bad_any_cast\<close> whether \<^verbatim>\<open>"IonEs"\<close> is there or not.
\<close>

theorem build_missing_key:
  "(c ''Frf'' = None \<or> c ''IonEs'' = None \<longrightarrow>
      build t k u b c =
        (if c ''Frf'' = None \<or> (\<exists>x. c ''Frf'' = Some (Double x)) then Inl key_error
         else Inl bad_any_cast)) \<and>
   (c ''Frf'' \<noteq> None \<and> (\<forall>x. c ''Frf'' \<noteq> Some (Double x)) \<longrightarrow>
      build t k u b c = Inl bad_any_cast)"
proof (intro conjI impI)
  assume m: "c ''Frf'' = None \<or> c ''IonEs'' = None"
  show "build t k u b c =
        (if c ''Frf'' = None \<or> (\<exists>x. c ''Frf'' = Some (Double x)) then Inl key_error
         else Inl bad_any_cast)"
  proof (cases "c ''Frf'' = None \<or> (\<exists>x. c ''Frf'' = Some (Double x))")
    case True
    then have "Moment2ElementBase_new k u c = Inl key_error"
      using base_new_missing_key[OF m, of k u] by simp
    then show ?thesis using True by (simp add: build_base_error)
  next
    case False
    then have "Moment2ElementBase_new k u c = Inl bad_any_cast"
      using base_new_missing_key[OF m, of k u] by simp
    then show ?thesis using False by (simp add: build_base_error)
  qed
next
  assume f: "c ''Frf'' \<noteq> None \<and> (\<forall>x. c ''Frf'' \<noteq> Some (Double x))"
  then obtain v where v: "c ''Frf'' = Some v" by auto
  then have n: "\<forall>x. v \<noteq> Double x" using f by simp
  have "Moment2ElementBase_new k u c = Inl bad_any_cast"
    using v n by (rule base_new_mistyped_Frf[of c v k u])
  then show "build t k u b c = Inl bad_any_cast" by (rule build_base_error)
qed

theorem build_missing_key_witness:
  "c_no_IonEs ''IonEs'' = None \<and> c_no_Frf ''Frf'' = None \<and>
   build marker k0 u0 0 c_no_IonEs = Inl key_error \<and>
   build stripper k0 u0 0 c_no_Frf = Inl key_error \<and>
   c_bad_Frf_IonEs ''Frf'' = Some (String ''80.5e6'') \<and>
   c_bad_Frf_IonEs ''IonEs'' = Some (Double 931494000) \<and>
   build marker k0 u0 0 c_bad_Frf_IonEs = Inl bad_any_cast"
proof -
  have a: "c_no_IonEs ''IonEs'' = None" and f: "c_no_IonEs ''Frf'' = Some (Double 80500000)"
    by (simp_all add: c_no_IonEs_def)
  have b: "c_no_Frf ''Frf'' = None" by (simp add: c_no_Frf_def)
  have s: "c_bad_Frf_IonEs ''Frf'' = Some (String ''80.5e6'')"
    and i: "c_bad_Frf_IonEs ''IonEs'' = Some (Double 931494000)"
    by (simp_all add: c_bad_Frf_IonEs_def)
  have a': "c_no_IonEs ''Frf'' = None \<or> c_no_IonEs ''IonEs'' = None" using a by simp
  have b': "c_no_Frf ''Frf'' = None \<or> c_no_Frf ''IonEs'' = None" using b by simp
  have s': "c_bad_Frf_IonEs ''Frf'' \<noteq> None \<and> (\<forall>x. c_bad_Frf_IonEs ''Frf'' \<noteq> Some (Double x))"
    using s by simp
  have 1: "build marker k0 u0 0 c_no_IonEs = Inl key_error"
    using build_missing_key [of c_no_IonEs marker k0 u0 0] a' f by simp
  have 2: "build stripper k0 u0 0 c_no_Frf = Inl key_error"
    using build_missing_key [of c_no_Frf stripper k0 u0 0] b' b by simp
  have 3: "build marker k0 u0 0 c_bad_Frf_IonEs = Inl bad_any_cast"
    using build_missing_key [of c_bad_Frf_IonEs marker k0 u0 0] s' by blast
  show ?thesis using a b s i 1 2 3 by (simp only: simp_thms)
qed

subsection \<open>The misalignment\<close>

lemma get_double_err: "get_double c n = Inl err \<Longrightarrow> err = key_error \<or> err = bad_any_cast"
  by (cases "c n"; cases "the (c n)") (auto simp: get_double_def getAny_def)

lemma get_string_err: "get_string c n = Inl err \<Longrightarrow> err = key_error \<or> err = bad_any_cast"
  by (cases "c n"; cases "the (c n)") (auto simp: get_string_def getAny_def)

lemma get_vector_err: "get_vector c n = Inl err \<Longrightarrow> err = key_error \<or> err = bad_any_cast"
  by (cases "c n"; cases "the (c n)") (auto simp: get_vector_def getAny_def)

lemma read_initial_err: "read_initial c n d = Inl err \<Longrightarrow> err = invalid_argument"
  by (auto simp: read_initial_def split: sum.splits if_splits error.splits
        dest: get_vector_err)

lemma state_new_err: "Moment2State_new b c = Inl err \<Longrightarrow> err = invalid_argument"
  by (auto simp: Moment2State_new_def Let_def split: sum.splits dest: read_initial_err)

lemma base_new_err:
  "Moment2ElementBase_new k u c = Inl err \<Longrightarrow> err = key_error \<or> err = bad_any_cast"
  by (auto simp: Moment2ElementBase_new_def Let_def inverse_m_identity split: sum.splits
        dest: get_double_err)

lemma build_err:
  assumes "build t k u b c = Inl err"
  shows "err \<noteq> runtime_error"
proof (cases t)
  case source
  then show ?thesis using assms
    by (auto simp: ElementSource_new_def split: sum.splits
          dest: base_new_err state_new_err)
next
  case marker
  then show ?thesis using assms
    by (auto simp: no_istate_def ElementMark_new_def split: sum.splits dest: base_new_err)
next
  case drift
  then show ?thesis using assms
    by (auto simp: no_istate_def ElementDrift_new_def Let_def split: sum.splits
          dest: base_new_err)
next
  case sbend
  then show ?thesis using assms
    by (auto simp: no_istate_def ElementSBend_new_def Let_def split: sum.splits
          dest: base_new_err get_double_err)
next
  case quadrupole
  then show ?thesis using assms
    by (auto simp: no_istate_def ElementQuad_new_def Let_def split: sum.splits
          dest: base_new_err get_double_err)
next
  case solenoid
  then show ?thesis using assms
    by (auto simp: no_istate_def ElementSolenoid_new_def Let_def split: sum.splits
          dest: base_new_err get_double_err)
next
  case rfcavity
  then show ?thesis using assms
    by (auto simp: no_istate_def ElementRFCavity_new_def Let_def split: sum.splits
          dest: base_new_err get_double_err get_string_err)
next
  case stripper
  then show ?thesis using assms
    by (auto simp: no_istate_def ElementStripper_new_def split: sum.splits dest: base_new_err)
next
  case edipole
  then show ?thesis using assms
    by (auto simp: no_istate_def ElementEDipole_new_def split: sum.splits dest: base_new_err)
next
  case generic
  then show ?thesis using assms
    by (auto simp: no_istate_def ElementGeneric_new_def split: sum.splits if_splits
          dest: base_new_err get_vector_err)
qed

lemma advance_transfer:
  assumes "misalign e = identity_matrix" and "misalign_inv e = identity_matrix"
    and "length (transfer_raw e) = 49"
    and "last_Kenergy_in e \<noteq> NaN \<longrightarrow> transfer e = transfer_raw e"
  shows "transfer (fst (Moment2ElementBase_advance e ST)) =
         transfer_raw (fst (Moment2ElementBase_advance e ST))"
proof (cases "energy_changed e ST")
  case True
  have "prod_mm (prod_mm identity_matrix (mat_set (transfer_raw e) PS_S PS_PS (energy_term e ST)))
          identity_matrix = mat_set (transfer_raw e) PS_S PS_PS (energy_term e ST)"
    by (simp add: prod_mm_identity_left prod_mm_identity_right length_mat_set assms(3))
  then show ?thesis using True assms(1,2) by (simp add: advance_fst)
next
  case False
  then obtain x where "last_Kenergy_in e = Num x"
    by (auto simp: energy_changed_def dest: not_changed_Num)
  then show ?thesis using False assms(4) by (simp add: advance_fst)
qed

text \<open>
  Claim C9. The construction of an element never fails with the \<^verbatim>\<open>runtime_error\<close> of
  \<^verbatim>\<open>inverse\<close>; during the whole life of an element of any of the ten types the
  misalignment and its inverse are the identity, the inversion of the misalignment
  gives that inverse, and after the default \<^verbatim>\<open>advance\<close> the matrix \<^verbatim>\<open>transfer\<close> equals
  \<^verbatim>\<open>transfer_raw\<close>.
\<close>

theorem misalign_stays_identity:
  "build t k u b c \<noteq> Inl runtime_error \<and>
   (lifetime t e \<longrightarrow>
      misalign e = identity_matrix \<and> misalign_inv e = identity_matrix \<and>
      inverse_m (misalign e) = Inr (misalign_inv e) \<and>
      (case Moment2ElementBase_advance e ST of (e', ST') \<Rightarrow> transfer e' = transfer_raw e'))"
proof (intro conjI impI)
  show "build t k u b c \<noteq> Inl runtime_error" using build_err by blast
next
  assume l: "lifetime t e"
  note k = lifetime_kept[OF l, unfolded kept_def]
  show "misalign e = identity_matrix" using k by simp
  show "misalign_inv e = identity_matrix" using k by simp
  show "inverse_m (misalign e) = Inr (misalign_inv e)" using k by (simp add: inverse_m_identity)
  have "transfer (fst (Moment2ElementBase_advance e ST)) =
         transfer_raw (fst (Moment2ElementBase_advance e ST))"
    using k by (intro advance_transfer) simp_all
  then show "case Moment2ElementBase_advance e ST of (e', ST') \<Rightarrow> transfer e' = transfer_raw e'"
    by (simp add: split_beta)
qed

theorem misalign_stays_identity_witness:
  "lifetime drift drift0 \<and> build drift k0 u0 0 c0 = Inr (drift0, None) \<and>
   misalign drift0 = identity_matrix \<and> misalign_inv drift0 = identity_matrix \<and>
   transfer (fst (Moment2ElementBase_advance drift0 s0)) =
     transfer_raw (fst (Moment2ElementBase_advance drift0 s0))"
proof -
  have b: "build drift k0 u0 0 c0 = Inr (drift0, None)"
    by (simp add: drift_new_c0 no_istate_def)
  show ?thesis
    using b lifetime_drift0 misalign_stays_identity [of drift k0 u0 0 c0 drift0 s0]
    by (simp add: split_beta)
qed

subsection \<open>The cache of the energy dependent terms\<close>

lemma hit_unchanged:
  assumes "\<not> energy_changed e ST"
  shows "transfer (fst (Moment2ElementBase_advance e ST)) = transfer e \<and>
         transfer_raw (fst (Moment2ElementBase_advance e ST)) = transfer_raw e \<and>
         last_Kenergy_in (fst (Moment2ElementBase_advance e ST)) = last_Kenergy_in e \<and>
         last_Kenergy_out (fst (Moment2ElementBase_advance e ST)) = last_Kenergy_out e"
  using assms by (simp add: advance_fst)

lemma first_advance_keys:
  assumes "last_Kenergy_out e = last_Kenergy_in e" and "Ekinetic ST = Num x"
  shows "last_Kenergy_in (fst (Moment2ElementBase_advance e ST)) = Num x \<and>
         last_Kenergy_out (fst (Moment2ElementBase_advance e ST)) = Num x \<and>
         Ekinetic (snd (Moment2ElementBase_advance e ST)) = Num x"
proof (cases "energy_changed e ST")
  case True
  then show ?thesis using assms(2) by (subst advance_snd) (simp add: advance_fst)
next
  case False
  then have "last_Kenergy_in e = Num x"
    using assms(2) by (auto simp: energy_changed_def dest: not_changed_Num)
  then show ?thesis using False assms(1) by (subst advance_snd) (simp add: advance_fst)
qed

lemma drift0_s0_changed: "energy_changed drift0 s0"
  by (simp add: energy_changed_def drift0_def base0_def)

text \<open>
  Claim C5 says that two calls of the default \<^verbatim>\<open>advance\<close> in a row, on a state with the
  same energy, recalculate exactly once. The drift built from \<open>c0\<close> has recalculated in
  a first pass of the state built from \<open>c0\<close>; the second and the third pass, at the same
  energy, do not recalculate at all.
\<close>

theorem warm_cache_counterexample:
  "ElementDrift_new k0 u0 c0 = Inr drift0 \<and> Moment2State_new 0 c0 = Inr s0 \<and>
   Ekinetic (snd (Moment2ElementBase_advance drift0 s0)) = Ekinetic s0 \<and>
   recalculations (fst (Moment2ElementBase_advance drift0 s0))
     (snd (Moment2ElementBase_advance drift0 s0)) = 0"
proof -
  let ?e1 = "fst (Moment2ElementBase_advance drift0 s0)"
  let ?s1 = "snd (Moment2ElementBase_advance drift0 s0)"
  have E: "Ekinetic s0 = Num 0" by (simp add: s0_def)
  have o: "last_Kenergy_out drift0 = last_Kenergy_in drift0"
    by (simp add: drift0_def base0_def)
  note k = first_advance_keys[OF o E]
  have h1: "\<not> energy_changed ?e1 ?s1" using k by (simp add: energy_changed_def)
  have o1: "last_Kenergy_out ?e1 = last_Kenergy_in ?e1" using k by simp
  have E1: "Ekinetic ?s1 = Num 0" using k by simp
  note k2 = first_advance_keys[OF o1 E1]
  have h2: "\<not> energy_changed (fst (Moment2ElementBase_advance ?e1 ?s1))
              (snd (Moment2ElementBase_advance ?e1 ?s1))"
    using k2 by (simp add: energy_changed_def)
  have "recalculations ?e1 ?s1 = 0"
    using h1 h2 by (simp add: recalculations_def split_beta)
  then show ?thesis using E E1 by (simp add: drift_new_c0 state_new_c0)
qed

text \<open>
  Claim C5, amended. For an element of a type with the default \<^verbatim>\<open>advance\<close> and a state
  whose energy is a number, two calls in a row recalculate at most once: once when the
  first call finds a key that differs from the energy, as it does on a new element, and
  never in the second call. After the first call both keys hold the energy of the state,
  which is unchanged, so the second call finds the energy equal to \<^verbatim>\<open>last_Kenergy_in\<close>
  and leaves \<^verbatim>\<open>transfer\<close>, \<^verbatim>\<open>transfer_raw\<close> and both keys as they are.
\<close>

theorem second_advance_no_recalculation:
  assumes "lifetime t e" and "t \<noteq> source" and "t \<noteq> rfcavity" and "Ekinetic ST = Num x"
  shows "case Moment2ElementBase_advance e ST of (e1, ST1) \<Rightarrow>
         case Moment2ElementBase_advance e1 ST1 of (e2, ST2) \<Rightarrow>
           last_Kenergy_in e1 = Num x \<and> last_Kenergy_out e1 = Num x \<and> Ekinetic ST1 = Num x \<and>
           \<not> energy_changed e1 ST1 \<and>
           transfer e2 = transfer e1 \<and> transfer_raw e2 = transfer_raw e1 \<and>
           last_Kenergy_in e2 = last_Kenergy_in e1 \<and> last_Kenergy_out e2 = last_Kenergy_out e1 \<and>
           recalculations e ST = (if energy_changed e ST then 1 else 0) \<and>
           (last_Kenergy_in e = NaN \<longrightarrow> recalculations e ST = 1)"
proof -
  obtain e1 ST1 where r1: "Moment2ElementBase_advance e ST = (e1, ST1)"
    by (cases "Moment2ElementBase_advance e ST")
  obtain e2 ST2 where r2: "Moment2ElementBase_advance e1 ST1 = (e2, ST2)"
    by (cases "Moment2ElementBase_advance e1 ST1")
  have e1: "e1 = fst (Moment2ElementBase_advance e ST)"
    and ST1: "ST1 = snd (Moment2ElementBase_advance e ST)"
    using r1 by simp_all
  have e2: "e2 = fst (Moment2ElementBase_advance e1 ST1)" using r2 by simp
  have o: "last_Kenergy_out e = last_Kenergy_in e"
    using lifetime_kept[OF assms(1)] assms(3) by (simp add: kept_def)
  have k: "last_Kenergy_in e1 = Num x \<and> last_Kenergy_out e1 = Num x \<and> Ekinetic ST1 = Num x"
    unfolding e1 ST1 by (rule first_advance_keys[OF o assms(4)])
  then have h: "\<not> energy_changed e1 ST1" by (simp add: energy_changed_def)
  have u: "transfer e2 = transfer e1 \<and> transfer_raw e2 = transfer_raw e1 \<and>
           last_Kenergy_in e2 = last_Kenergy_in e1 \<and> last_Kenergy_out e2 = last_Kenergy_out e1"
    unfolding e2 by (rule hit_unchanged[OF h])
  have c: "recalculations e ST = (if energy_changed e ST then 1 else 0)"
    using h by (simp add: recalculations_def r1)
  have n: "last_Kenergy_in e = NaN \<longrightarrow> recalculations e ST = 1"
    using c assms(4) by (simp add: energy_changed_def)
  show ?thesis using k h u c n by (simp add: r1 r2)
qed

theorem second_advance_no_recalculation_witness:
  "lifetime drift drift0 \<and> drift \<noteq> source \<and> drift \<noteq> rfcavity \<and> Ekinetic s0 = Num 0 \<and>
   recalculations drift0 s0 = 1 \<and>
   last_Kenergy_in (fst (Moment2ElementBase_advance drift0 s0)) = Num 0 \<and>
   \<not> energy_changed (fst (Moment2ElementBase_advance drift0 s0))
        (snd (Moment2ElementBase_advance drift0 s0))"
proof -
  have E: "Ekinetic s0 = Num 0" by (simp add: s0_def)
  have t: "drift \<noteq> source" "drift \<noteq> rfcavity" by simp_all
  show ?thesis
    using E t lifetime_drift0 drift0_s0_changed
      second_advance_no_recalculation [OF lifetime_drift0 t E]
    by (simp add: split_beta)
qed

end
